theory Spec2Isabelle
  imports Complex_Main
begin

section \<open>Data model of the backtest engine\<close>

text \<open>
  The engine is \<^verbatim>\<open>src/backtest/engine.py\<close>, function \<^verbatim>\<open>backtest\<close>, with the
  position sizer \<^verbatim>\<open>src/risk/position_sizing.py\<close>. Python floats are idealised as
  reals. The one float value the code tests for, NaN in the ATR column, is \<open>None\<close>
  in a \<open>real option\<close>. Bar indices are naturals, as \<^verbatim>\<open>range(len(df))\<close> yields them.
  An out-of-range read of the signal series or of the ATR array raises
  \<^verbatim>\<open>IndexError\<close> in Python; it is a value of the result type here.
\<close>

datatype error = IndexError

text \<open>The dataclass \<^verbatim>\<open>TradeResult\<close>; its fields carry the prefix \<open>tr_\<close>, since
  the position dictionary uses the same keys.\<close>

record TradeResult =
  tr_entry_idx :: nat
  tr_exit_idx :: nat
  tr_side :: int
  tr_entry_price :: real
  tr_exit_price :: real
  tr_qty :: real
  tr_pnl :: real
  tr_ret :: real

text \<open>The dictionary bound to \<^verbatim>\<open>position\<close> while a position is open.\<close>

record position =
  side :: int
  qty :: real
  entry_price :: real
  entry_price_net :: real
  stop :: real
  tp :: real
  entry_idx :: nat

text \<open>The scalar parameters of \<^verbatim>\<open>backtest\<close>, bundled.\<close>

record config =
  initial_capital :: real
  risk_per_trade :: real
  atr_stop_mult :: real
  tp_mult :: real
  fee_pct :: real
  slippage_pct :: real

text \<open>The local variables of the loop; \<open>None\<close> is Python's \<^verbatim>\<open>position = None\<close>.\<close>

record state =
  balance :: real
  equity_curve :: "real list"
  position :: "position option"
  trades :: "TradeResult list"

text \<open>The local \<^verbatim>\<open>exit_reason\<close>: the strings "stop" and "tp"; \<open>None\<close> is Python's None.\<close>

datatype reason = Stop | Tp

section \<open>Operations\<close>

definition atr_position_size :: "real \<Rightarrow> real \<Rightarrow> real \<Rightarrow> real \<Rightarrow> real \<Rightarrow> real" where
  "atr_position_size bal rpt a price stop_mult =
     (let risk_per_unit = max (1 / 10 ^ 8) (a * stop_mult);
          risk_amount = bal * rpt;
          q = risk_amount / risk_per_unit
      in max 0 q)"

text \<open>Lines 106-114: one equity value per bar, from the state the bar starts in.\<close>

definition mtm :: "state \<Rightarrow> real \<Rightarrow> real" where
  "mtm st p =
     (case position st of
        Some pos \<Rightarrow> balance st + (p - entry_price pos) * qty pos * real_of_int (side pos)
      | None \<Rightarrow> balance st)"

definition mark_to_market :: "real \<Rightarrow> state \<Rightarrow> state" where
  "mark_to_market p st = st\<lparr>equity_curve := equity_curve st @ [mtm st p]\<rparr>"

text \<open>Lines 123-127: the stop test comes first, the take-profit test is its \<^verbatim>\<open>elif\<close>.\<close>

definition exit_reason :: "position \<Rightarrow> real \<Rightarrow> reason option" where
  "exit_reason pos p =
     (if (side pos = 1 \<and> p \<le> stop pos) \<or> (side pos = - 1 \<and> p \<ge> stop pos) then Some Stop
      else if (side pos = 1 \<and> p \<ge> tp pos) \<or> (side pos = - 1 \<and> p \<le> tp pos) then Some Tp
      else None)"

text \<open>Lines 129-140: closing the position at bar \<open>i\<close> and close \<open>p\<close>.\<close>

definition close_position :: "config \<Rightarrow> nat \<Rightarrow> real \<Rightarrow> position \<Rightarrow> state \<Rightarrow> state" where
  "close_position cfg i p pos st =
     (let exit_price = (if side pos = 1 then p * (1 - slippage_pct cfg)
                        else p * (1 + slippage_pct cfg));
          fee = (\<bar>qty pos\<bar> * exit_price) * fee_pct cfg;
          pnl = (exit_price - entry_price_net pos) * qty pos * real_of_int (side pos) - fee;
          ret = pnl / max (1 / 10 ^ 9) (initial_capital cfg)
      in st\<lparr>balance := balance st + pnl,
            trades := trades st @
              [\<lparr>tr_entry_idx = entry_idx pos, tr_exit_idx = i, tr_side = side pos,
                tr_entry_price = entry_price pos, tr_exit_price = exit_price,
                tr_qty = qty pos, tr_pnl = pnl, tr_ret = ret\<rparr>],
            position := None\<rparr>)"

text \<open>Lines 116-140: the exit logic of one bar.\<close>

definition exit_logic :: "config \<Rightarrow> nat \<Rightarrow> real \<Rightarrow> state \<Rightarrow> state" where
  "exit_logic cfg i p st =
     (case position st of
        None \<Rightarrow> st
      | Some pos \<Rightarrow>
          (case exit_reason pos p of
             None \<Rightarrow> st
           | Some r \<Rightarrow> close_position cfg i p pos st))"

text \<open>Lines 152-166: the position opened at bar \<open>i\<close> with side \<open>sd\<close>, ATR \<open>a\<close> and
  quantity \<open>q\<close>.\<close>

definition open_position :: "config \<Rightarrow> nat \<Rightarrow> real \<Rightarrow> int \<Rightarrow> real \<Rightarrow> real \<Rightarrow> position" where
  "open_position cfg i p sd a q =
     (let ep = (if sd = 1 then p * (1 + slippage_pct cfg) else p * (1 - slippage_pct cfg));
          fee = (\<bar>q\<bar> * ep) * fee_pct cfg;
          epn = ep + (fee / max (1 / 10 ^ 9) \<bar>q\<bar>) * (if sd = 1 then 1 else - 1);
          sp = ep - real_of_int sd * (a * atr_stop_mult cfg);
          t = ep + real_of_int sd * (a * atr_stop_mult cfg * tp_mult cfg)
      in \<lparr>side = sd, qty = q, entry_price = ep, entry_price_net = epn,
          stop = sp, tp = t, entry_idx = i\<rparr>)"

text \<open>Lines 142-166: the entry logic of one bar. \<^verbatim>\<open>signal.iloc[i]\<close> is read only
  when no position is open (\<^verbatim>\<open>and\<close> short-circuits), \<^verbatim>\<open>atr[i]\<close> only when the
  signal is nonzero; either read raises beyond the end of its series. Each
  \<^verbatim>\<open>continue\<close> leaves the state as it is: nothing follows the entry logic in the
  loop body.\<close>

definition entry_logic ::
  "config \<Rightarrow> int list \<Rightarrow> real option list \<Rightarrow> nat \<Rightarrow> real \<Rightarrow> state \<Rightarrow> error + state" where
  "entry_logic cfg signal atr i p st =
     (case position st of
        Some pos \<Rightarrow> Inr st
      | None \<Rightarrow>
          if length signal \<le> i then Inl IndexError
          else if signal ! i = 0 then Inr st
          else if length atr \<le> i then Inl IndexError
          else
            (let sd = signal ! i;
                 a = (case atr ! i of None \<Rightarrow> 0 | Some v \<Rightarrow> v)
             in if a \<le> 0 then Inr st
                else
                  (let q = atr_position_size (balance st) (risk_per_trade cfg) a p
                             (atr_stop_mult cfg)
                   in if q \<le> 0 then Inr st
                      else Inr (st\<lparr>position := Some (open_position cfg i p sd a q)\<rparr>))))"

text \<open>Lines 103-166: the body of the loop at bar \<open>i\<close>.\<close>

definition bar ::
  "config \<Rightarrow> real list \<Rightarrow> int list \<Rightarrow> real option list \<Rightarrow> nat \<Rightarrow> state \<Rightarrow> error + state" where
  "bar cfg price signal atr i st =
     (let p = price ! i
      in entry_logic cfg signal atr i p (exit_logic cfg i p (mark_to_market p st)))"

text \<open>The \<^verbatim>\<open>for\<close> loop over a list of bar indices; an exception ends it.\<close>

fun run_bars ::
  "config \<Rightarrow> real list \<Rightarrow> int list \<Rightarrow> real option list \<Rightarrow> nat list \<Rightarrow> state \<Rightarrow> error + state" where
  "run_bars cfg price signal atr [] st = Inr st"
| "run_bars cfg price signal atr (i # is) st =
     (case bar cfg price signal atr i st of
        Inl e \<Rightarrow> Inl e
      | Inr st' \<Rightarrow> run_bars cfg price signal atr is st')"

text \<open>Lines 95-98: the state before the first bar.\<close>

definition init :: "config \<Rightarrow> state" where
  "init cfg = \<lparr>balance = initial_capital cfg, equity_curve = [], position = None, trades = []\<rparr>"

text \<open>Line 101: the ATR array; zeros of the length of the frame when \<^verbatim>\<open>ind\<close> has no
  column \<^verbatim>\<open>atr\<close> (\<open>None\<close>).\<close>

definition atr_of :: "real option list option \<Rightarrow> nat \<Rightarrow> real option list" where
  "atr_of ind n = (case ind of Some xs \<Rightarrow> xs | None \<Rightarrow> replicate n (Some 0))"

text \<open>The loop as a whole, from the initial state over \<^verbatim>\<open>range(len(df))\<close>.\<close>

definition simulate ::
  "config \<Rightarrow> real list \<Rightarrow> int list \<Rightarrow> real option list option \<Rightarrow> error + state" where
  "simulate cfg price signal ind =
     run_bars cfg price signal (atr_of ind (length price)) [0..<length price] (init cfg)"

text \<open>\<^verbatim>\<open>backtest\<close>: \<open>price\<close> is the column \<^verbatim>\<open>df["close"]\<close>; the result is the pair of
  the equity curve and the trade ledger, or the exception raised.\<close>

definition backtest ::
  "config \<Rightarrow> real list \<Rightarrow> int list \<Rightarrow> real option list option
     \<Rightarrow> error + (real list \<times> TradeResult list)" where
  "backtest cfg price signal ind =
     (case simulate cfg price signal ind of
        Inl e \<Rightarrow> Inl e
      | Inr st \<Rightarrow> Inr (equity_curve st, trades st))"

section \<open>Invariants of the trade ledger\<close>

text \<open>Before bar \<open>n\<close> is processed: every closed trade was opened before it was
  closed and closed before \<open>n\<close>, the ledger is in chronological order, and an open
  position was opened before \<open>n\<close> and not before any closed trade ended.\<close>

definition ledger_inv :: "nat \<Rightarrow> state \<Rightarrow> bool" where
  "ledger_inv n st \<longleftrightarrow>
     (\<forall>t\<in>set (trades st). tr_entry_idx t < tr_exit_idx t \<and> tr_exit_idx t < n) \<and>
     sorted_wrt (\<lambda>a b. tr_exit_idx a \<le> tr_entry_idx b) (trades st) \<and>
     (\<forall>pos. position st = Some pos \<longrightarrow>
        entry_idx pos < n \<and> (\<forall>t\<in>set (trades st). tr_exit_idx t \<le> entry_idx pos))"

text \<open>Between the exit logic and the entry logic of bar \<open>i\<close>: a trade may have been
  closed at \<open>i\<close> itself.\<close>

definition ledger_mid :: "nat \<Rightarrow> state \<Rightarrow> bool" where
  "ledger_mid i st \<longleftrightarrow>
     (\<forall>t\<in>set (trades st). tr_entry_idx t < tr_exit_idx t \<and> tr_exit_idx t \<le> i) \<and>
     sorted_wrt (\<lambda>a b. tr_exit_idx a \<le> tr_entry_idx b) (trades st) \<and>
     (\<forall>pos. position st = Some pos \<longrightarrow>
        entry_idx pos < i \<and> (\<forall>t\<in>set (trades st). tr_exit_idx t \<le> entry_idx pos))"

section \<open>Two runs that differ in the fee rate\<close>

text \<open>The total realized result of a ledger.\<close>

definition total_pnl :: "TradeResult list \<Rightarrow> real" where
  "total_pnl ts = sum_list (map tr_pnl ts)"

text \<open>The net entry price of a position opened under the fee rate \<open>f\<close> (line 155).\<close>

definition net_ok :: "real \<Rightarrow> position \<Rightarrow> bool" where
  "net_ok f pos \<longleftrightarrow>
     entry_price_net pos = entry_price pos +
       (\<bar>qty pos\<bar> * entry_price pos * f / max (1 / 10 ^ 9) \<bar>qty pos\<bar>) *
       (if side pos = 1 then 1 else - 1)"

text \<open>Two positions that agree in everything but the net entry price.\<close>

definition same_but_net :: "position \<Rightarrow> position \<Rightarrow> bool" where
  "same_but_net p1 p2 \<longleftrightarrow>
     side p1 = side p2 \<and> qty p1 = qty p2 \<and> entry_price p1 = entry_price p2 \<and>
     stop p1 = stop p2 \<and> tp p1 = tp p2 \<and> entry_idx p1 = entry_idx p2"

text \<open>The positions of two runs under the fee rates \<open>f1\<close> and \<open>f2\<close> before either has
  closed a trade. \<open>P\<close> stands for the side conditions under which the results are
  compared (ordered fee rates, positive closes, a slippage rate in \<open>[0, 1)\<close>).\<close>

fun pos_pre :: "bool \<Rightarrow> real \<Rightarrow> real \<Rightarrow> position option \<Rightarrow> position option \<Rightarrow> bool" where
  "pos_pre P f1 f2 None None = True"
| "pos_pre P f1 f2 (Some p1) (Some p2) =
     (same_but_net p1 p2 \<and> net_ok f1 p1 \<and> net_ok f2 p2 \<and> 0 < qty p2 \<and>
      (P \<longrightarrow> 0 < entry_price p2))"
| "pos_pre P f1 f2 _ _ = False"

text \<open>The states of the two runs before either has closed a trade.\<close>

definition pre_rel :: "bool \<Rightarrow> real \<Rightarrow> real \<Rightarrow> state \<Rightarrow> state \<Rightarrow> bool" where
  "pre_rel P f1 f2 s1 s2 \<longleftrightarrow>
     trades s1 = [] \<and> trades s2 = [] \<and> balance s1 = balance s2 \<and>
     equity_curve s1 = equity_curve s2 \<and> pos_pre P f1 f2 (position s1) (position s2)"

text \<open>Two trades that agree in everything but the realized result and the return.\<close>

definition same_fill :: "TradeResult \<Rightarrow> TradeResult \<Rightarrow> bool" where
  "same_fill t1 t2 \<longleftrightarrow>
     tr_entry_idx t1 = tr_entry_idx t2 \<and> tr_exit_idx t1 = tr_exit_idx t2 \<and>
     tr_side t1 = tr_side t2 \<and> tr_entry_price t1 = tr_entry_price t2 \<and>
     tr_exit_price t1 = tr_exit_price t2 \<and> tr_qty t1 = tr_qty t2"

text \<open>The states of the two runs once both have closed their first trade.\<close>

definition post_rel :: "bool \<Rightarrow> state \<Rightarrow> state \<Rightarrow> bool" where
  "post_rel P s1 s2 \<longleftrightarrow>
     trades s1 \<noteq> [] \<and> trades s2 \<noteq> [] \<and> same_fill (hd (trades s1)) (hd (trades s2)) \<and>
     (P \<longrightarrow> tr_pnl (hd (trades s2)) \<le> tr_pnl (hd (trades s1)))"

section \<open>The cost basis in the words of the specification\<close>

text \<open>The specification gives the net entry price as
  \<open>entry_price + sign * (entry_fee / quantity)\<close>, with sign \<open>+1\<close> for long and \<open>-1\<close> for
  short, and the realized result as
  \<open>(exit_price - entry_price_net) * quantity * side - exit_fee\<close>. These two
  definitions follow those words, for comparison with the engine.\<close>

definition spec_entry_price_net :: "real \<Rightarrow> real \<Rightarrow> real \<Rightarrow> int \<Rightarrow> real" where
  "spec_entry_price_net ep entry_fee quantity sd =
     ep + (if sd = 1 then 1 else - 1) * (entry_fee / quantity)"

definition spec_pnl :: "real \<Rightarrow> real \<Rightarrow> real \<Rightarrow> int \<Rightarrow> real \<Rightarrow> real" where
  "spec_pnl exit_price epn quantity sd exit_fee =
     (exit_price - epn) * quantity * real_of_int sd - exit_fee"

section \<open>Concrete runs\<close>

text \<open>A long position is opened at bar 0, stopped out at bar 1 and reopened on the
  same bar, and stopped out again at bar 2.\<close>

definition demo_cfg :: "real \<Rightarrow> config" where
  "demo_cfg f = \<lparr>initial_capital = 1000, risk_per_trade = 1 / 2, atr_stop_mult = 1,
     tp_mult = 1, fee_pct = f, slippage_pct = 0\<rparr>"

definition demo_price :: "real list" where
  "demo_price = [100, 99, 50]"

definition demo_signal :: "int list" where
  "demo_signal = [1, 1, 0]"

definition demo_atr :: "real option list" where
  "demo_atr = [Some 1, Some 1, Some 1]"

text \<open>The state of that run (no fee) after bar 0 and after bar 1.\<close>

definition demo_pos1 :: position where
  "demo_pos1 = \<lparr>side = 1, qty = 500, entry_price = 100, entry_price_net = 100,
     stop = 99, tp = 101, entry_idx = 0\<rparr>"

definition demo_st1 :: state where
  "demo_st1 = \<lparr>balance = 1000, equity_curve = [1000], position = Some demo_pos1,
     trades = []\<rparr>"

definition demo_trade1 :: TradeResult where
  "demo_trade1 = \<lparr>tr_entry_idx = 0, tr_exit_idx = 1, tr_side = 1, tr_entry_price = 100,
     tr_exit_price = 99, tr_qty = 500, tr_pnl = - 500, tr_ret = - (1 / 2)\<rparr>"

definition demo_trade2 :: TradeResult where
  "demo_trade2 = \<lparr>tr_entry_idx = 1, tr_exit_idx = 2, tr_side = 1, tr_entry_price = 99,
     tr_exit_price = 50, tr_qty = 250, tr_pnl = - 12250, tr_ret = - (49 / 4)\<rparr>"

definition demo_pos2 :: position where
  "demo_pos2 = \<lparr>side = 1, qty = 250, entry_price = 99, entry_price_net = 99,
     stop = 98, tp = 100, entry_idx = 1\<rparr>"

definition demo_st2 :: state where
  "demo_st2 = \<lparr>balance = 500, equity_curve = [1000, 500], position = Some demo_pos2,
     trades = [demo_trade1]\<rparr>"

text \<open>The same bar 1 when the ATR of that bar is NaN: the position is closed and none
  is opened.\<close>

definition gap_atr :: "real option list" where
  "gap_atr = [Some 1, None, Some 1]"

definition gap_st2 :: state where
  "gap_st2 = \<lparr>balance = 500, equity_curve = [1000, 500], position = None,
     trades = [demo_trade1]\<rparr>"

text \<open>A run with slippage: long at bar 0, stopped out and reversed to short at bar 1,
  take-profit at bar 2.\<close>

definition slip_cfg :: config where
  "slip_cfg = \<lparr>initial_capital = 1000, risk_per_trade = 1 / 100, atr_stop_mult = 1,
     tp_mult = 1, fee_pct = 0, slippage_pct = 1 / 100\<rparr>"

definition slip_signal :: "int list" where
  "slip_signal = [1, - 1, 0]"

definition slip_pos1 :: position where
  "slip_pos1 = \<lparr>side = 1, qty = 10, entry_price = 101, entry_price_net = 101,
     stop = 100, tp = 102, entry_idx = 0\<rparr>"

definition slip_st1 :: state where
  "slip_st1 = \<lparr>balance = 1000, equity_curve = [1000], position = Some slip_pos1,
     trades = []\<rparr>"

definition slip_trade1 :: TradeResult where
  "slip_trade1 = \<lparr>tr_entry_idx = 0, tr_exit_idx = 1, tr_side = 1, tr_entry_price = 101,
     tr_exit_price = 891 / 10, tr_qty = 10, tr_pnl = - 119, tr_ret = - (119 / 1000)\<rparr>"

definition slip_pos2 :: position where
  "slip_pos2 = \<lparr>side = - 1, qty = 881 / 100, entry_price = 891 / 10,
     entry_price_net = 891 / 10, stop = 901 / 10, tp = 881 / 10, entry_idx = 1\<rparr>"

definition slip_st2 :: state where
  "slip_st2 = \<lparr>balance = 881, equity_curve = [1000, 890], position = Some slip_pos2,
     trades = [slip_trade1]\<rparr>"

definition slip_trade2 :: TradeResult where
  "slip_trade2 = \<lparr>tr_entry_idx = 1, tr_exit_idx = 2, tr_side = - 1,
     tr_entry_price = 891 / 10, tr_exit_price = 404 / 5, tr_qty = 881 / 100,
     tr_pnl = 73123 / 1000, tr_ret = 73123 / 1000000\<rparr>"

text \<open>The only trade of the first run under a fee of one percent: long at bar 0,
  stopped out at bar 1; the balance is then negative and nothing is opened again.\<close>

definition fee_trade :: TradeResult where
  "fee_trade = \<lparr>tr_entry_idx = 0, tr_exit_idx = 1, tr_side = 1, tr_entry_price = 100,
     tr_exit_price = 99, tr_qty = 500, tr_pnl = - 1495, tr_ret = - (299 / 200)\<rparr>"

text \<open>A small account: the sized quantity is \<open>1 / 10 ^ 10\<close>, below the floor \<open>1 / 10 ^ 9\<close>
  of line 155.\<close>

definition tiny_cfg :: config where
  "tiny_cfg = \<lparr>initial_capital = 1 / 10 ^ 6, risk_per_trade = 1 / 100, atr_stop_mult = 2,
     tp_mult = 1, fee_pct = 1 / 1000, slippage_pct = 0\<rparr>"

definition tiny_pos :: position where
  "tiny_pos = \<lparr>side = 1, qty = 1 / 10 ^ 10, entry_price = 1000,
     entry_price_net = 10001 / 10, stop = 900, tp = 1100, entry_idx = 0\<rparr>"

definition tiny_st :: state where
  "tiny_st = \<lparr>balance = 1 / 10 ^ 6, equity_curve = [1 / 10 ^ 6], position = Some tiny_pos,
     trades = []\<rparr>"

definition tiny_trade :: TradeResult where
  "tiny_trade = \<lparr>tr_entry_idx = 0, tr_exit_idx = 1, tr_side = 1, tr_entry_price = 1000,
     tr_exit_price = 1100, tr_qty = 1 / 10 ^ 10, tr_pnl = 247 / 25000000000,
     tr_ret = 247 / 25000\<rparr>"

text \<open>With a stop multiplier of zero the stop and the take-profit level both equal
  the entry price: at an unchanged close both exit conditions hold.\<close>

definition tie_cfg :: config where
  "tie_cfg = \<lparr>initial_capital = 1000, risk_per_trade = 1 / 2, atr_stop_mult = 0,
     tp_mult = 0, fee_pct = 0, slippage_pct = 0\<rparr>"

definition tie_pos :: position where
  "tie_pos = \<lparr>side = 1, qty = 50000000000, entry_price = 100, entry_price_net = 100,
     stop = 100, tp = 100, entry_idx = 0\<rparr>"

definition tie_st :: state where
  "tie_st = \<lparr>balance = 1000, equity_curve = [1000], position = Some tie_pos, trades = []\<rparr>"

text \<open>The same run with a stop multiplier of \<open>1 / 10 ^ 8\<close>: the stop level lies just
  below the entry price, and at an unchanged close only the take-profit condition
  holds. The closed trade and the state after bar 1 of the run with the tie; the state
  after a bar 1 that leaves the first position of the earlier run open.\<close>

definition tponly_cfg :: config where
  "tponly_cfg = \<lparr>initial_capital = 1000, risk_per_trade = 1 / 2, atr_stop_mult = 1 / 10 ^ 8,
     tp_mult = 0, fee_pct = 0, slippage_pct = 0\<rparr>"

definition tponly_pos :: position where
  "tponly_pos = \<lparr>side = 1, qty = 50000000000, entry_price = 100, entry_price_net = 100,
     stop = 100 - 1 / 10 ^ 8, tp = 100, entry_idx = 0\<rparr>"

definition tponly_st :: state where
  "tponly_st = \<lparr>balance = 1000, equity_curve = [1000], position = Some tponly_pos,
     trades = []\<rparr>"

definition tie_trade :: TradeResult where
  "tie_trade = \<lparr>tr_entry_idx = 0, tr_exit_idx = 1, tr_side = 1, tr_entry_price = 100,
     tr_exit_price = 100, tr_qty = 50000000000, tr_pnl = 0, tr_ret = 0\<rparr>"

definition tie_st2 :: state where
  "tie_st2 = \<lparr>balance = 1000, equity_curve = [1000, 1000], position = None,
     trades = [tie_trade]\<rparr>"

definition hold_st :: state where
  "hold_st = \<lparr>balance = 1000, equity_curve = [1000, 1000], position = Some demo_pos1,
     trades = []\<rparr>"

text \<open>The state after two bars without a signal.\<close>

definition idle_st :: state where
  "idle_st = \<lparr>balance = 1000, equity_curve = [1000, 1000], position = None, trades = []\<rparr>"

text \<open>A signal series that never enters.\<close>

definition quiet_signal :: "int list" where
  "quiet_signal = [0, 0, 0]"

lemmas demo_defs = demo_cfg_def demo_price_def demo_signal_def demo_atr_def demo_st1_def
  demo_st2_def demo_trade1_def demo_trade2_def tie_cfg_def tie_pos_def tie_st_def
  demo_pos1_def demo_pos2_def gap_atr_def gap_st2_def slip_cfg_def slip_signal_def
  slip_pos1_def slip_st1_def slip_trade1_def slip_pos2_def slip_st2_def slip_trade2_def
  fee_trade_def tiny_cfg_def tiny_pos_def tiny_st_def tiny_trade_def

lemmas tie_defs = tie_cfg_def tponly_cfg_def tponly_pos_def tponly_st_def tie_trade_def
  tie_st2_def hold_st_def tie_pos_def tie_st_def

lemmas engine_defs = backtest_def simulate_def atr_of_def init_def bar_def
  mark_to_market_def mtm_def exit_logic_def exit_reason_def close_position_def
  entry_logic_def open_position_def atr_position_size_def Let_def

section \<open>The loop: equity curve and errors\<close>

lemma mark_to_market_simps:
  "balance (mark_to_market p st) = balance st"
  "position (mark_to_market p st) = position st"
  "trades (mark_to_market p st) = trades st"
  "equity_curve (mark_to_market p st) = equity_curve st @ [mtm st p]"
  by (simp_all add: mark_to_market_def)

lemma exit_logic_equity: "equity_curve (exit_logic cfg i p st) = equity_curve st"
  by (simp add: exit_logic_def close_position_def Let_def split: option.splits)

lemma entry_logic_keeps:
  assumes "entry_logic cfg signal atr i p st = Inr st'"
  shows "equity_curve st' = equity_curve st" and "balance st' = balance st"
    and "trades st' = trades st"
  using assms
  by (auto simp: entry_logic_def Let_def split: option.splits if_splits)

lemma bar_equity:
  assumes "bar cfg price signal atr i st = Inr st'"
  shows "equity_curve st' = equity_curve st @ [mtm st (price ! i)]"
proof -
  from assms have "equity_curve st' =
      equity_curve (exit_logic cfg i (price ! i) (mark_to_market (price ! i) st))"
    by (simp add: bar_def Let_def entry_logic_keeps(1))
  then show ?thesis
    by (simp add: exit_logic_equity mark_to_market_simps)
qed

lemma run_bars_append:
  "run_bars cfg price signal atr (xs @ ys) st =
     (case run_bars cfg price signal atr xs st of
        Inl e \<Rightarrow> Inl e
      | Inr st' \<Rightarrow> run_bars cfg price signal atr ys st')"
  by (induction xs arbitrary: st) (auto split: sum.splits)

lemma run_bars_equity:
  "run_bars cfg price signal atr is st = Inr st' \<Longrightarrow>
     \<exists>ys. equity_curve st' = equity_curve st @ ys \<and> length ys = length is"
proof (induction "is" arbitrary: st)
  case Nil
  then show ?case by simp
next
  case (Cons i "is")
  from Cons.prems obtain st1 where b: "bar cfg price signal atr i st = Inr st1"
    and r: "run_bars cfg price signal atr is st1 = Inr st'"
    by (auto split: sum.splits)
  from Cons.IH [OF r] obtain ys where
    "equity_curve st' = equity_curve st1 @ ys" "length ys = length is" by blast
  with bar_equity [OF b] show ?case by simp
qed

lemma entry_logic_total:
  assumes "i < length signal" and "i < length atr"
  shows "\<exists>st'. entry_logic cfg signal atr i p st = Inr st'"
  using assms by (simp add: entry_logic_def Let_def split: option.splits)

lemma bar_total:
  assumes "i < length signal" and "i < length atr"
  shows "\<exists>st'. bar cfg price signal atr i st = Inr st'"
  using entry_logic_total [OF assms] by (simp add: bar_def Let_def)

lemma run_bars_total:
  assumes "\<forall>i\<in>set is. i < length signal \<and> i < length atr"
  shows "\<exists>st'. run_bars cfg price signal atr is st = Inr st'"
  using assms
proof (induction "is" arbitrary: st)
  case Nil
  then show ?case by simp
next
  case (Cons i "is")
  then obtain st1 where "bar cfg price signal atr i st = Inr st1"
    using bar_total [of i signal atr cfg price st] by auto
  with Cons show ?case by simp
qed

lemma entry_logic_error:
  "entry_logic cfg signal atr i p st = Inl e \<Longrightarrow> length signal \<le> i \<or> length atr \<le> i"
  by (auto simp: entry_logic_def Let_def split: option.splits if_splits)

lemma run_bars_error:
  "run_bars cfg price signal atr is st = Inl e \<Longrightarrow>
     \<exists>i\<in>set is. length signal \<le> i \<or> length atr \<le> i"
proof (induction "is" arbitrary: st)
  case Nil
  then show ?case by simp
next
  case (Cons i "is")
  show ?case
  proof (cases "bar cfg price signal atr i st")
    case (Inl e')
    then have "length signal \<le> i \<or> length atr \<le> i"
      by (auto simp: bar_def Let_def dest: entry_logic_error)
    then show ?thesis by auto
  next
    case (Inr st1)
    with Cons.prems have "run_bars cfg price signal atr is st1 = Inl e" by simp
    from Cons.IH [OF this] show ?thesis by auto
  qed
qed

lemma simulate_total:
  assumes "length price \<le> length signal"
    and "length price \<le> length (atr_of ind (length price))"
  shows "\<exists>st. simulate cfg price signal ind = Inr st"
  unfolding simulate_def
  by (rule run_bars_total) (use assms in auto)

lemma simulate_equity_length:
  assumes "simulate cfg price signal ind = Inr st"
  shows "length (equity_curve st) = length price"
  using run_bars_equity [OF assms [unfolded simulate_def]]
  by (auto simp: init_def)

lemma backtest_Inr:
  "backtest cfg price signal ind = Inr (eq, tr) \<longleftrightarrow>
     (\<exists>st. simulate cfg price signal ind = Inr st \<and> eq = equity_curve st \<and> tr = trades st)"
  by (auto simp: backtest_def split: sum.splits)

lemma backtest_Inl:
  "backtest cfg price signal ind = Inl e \<longleftrightarrow> simulate cfg price signal ind = Inl e"
  by (auto simp: backtest_def split: sum.splits)

lemma bar0_equity:
  assumes "bar cfg price signal atr i (init cfg) = Inr st'"
  shows "equity_curve st' = [initial_capital cfg]"
  using bar_equity [OF assms] by (simp add: init_def mtm_def)

lemma entry_logic_Inl_iff:
  "entry_logic cfg signal atr i p st = Inl e \<longleftrightarrow>
     e = IndexError \<and> position st = None \<and>
     (length signal \<le> i \<or> (signal ! i \<noteq> 0 \<and> length atr \<le> i))"
  by (cases e) (auto simp: entry_logic_def Let_def split: option.splits)

lemma bar_Inl_iff:
  "bar cfg price signal atr i st = Inl e \<longleftrightarrow>
     e = IndexError \<and>
     position (exit_logic cfg i (price ! i) (mark_to_market (price ! i) st)) = None \<and>
     (length signal \<le> i \<or> (signal ! i \<noteq> 0 \<and> length atr \<le> i))"
  by (simp add: bar_def Let_def entry_logic_Inl_iff)

lemma run_bars_single: "run_bars cfg price signal atr [i] st = bar cfg price signal atr i st"
  by (simp split: sum.splits)

lemma run_bars_upt_Suc:
  "run_bars cfg price signal atr [0..<Suc n] st0 =
     (case run_bars cfg price signal atr [0..<n] st0 of
        Inl e \<Rightarrow> Inl e
      | Inr st \<Rightarrow> bar cfg price signal atr n st)"
  by (simp add: run_bars_append run_bars_single del: run_bars.simps split: sum.splits)

lemma run_bars_Inl_iff:
  "run_bars cfg price signal atr [0..<n] st0 = Inl e \<longleftrightarrow>
     (\<exists>i<n. \<exists>st. run_bars cfg price signal atr [0..<i] st0 = Inr st \<and>
        bar cfg price signal atr i st = Inl e)"
proof (induction n)
  case 0
  show ?case by simp
next
  case (Suc n)
  let ?E = "\<lambda>m. \<exists>i<m. \<exists>st. run_bars cfg price signal atr [0..<i] st0 = Inr st \<and>
        bar cfg price signal atr i st = Inl e"
  show ?case
  proof (cases "run_bars cfg price signal atr [0..<n] st0")
    case (Inl e')
    then have l: "run_bars cfg price signal atr [0..<Suc n] st0 = Inl e'"
      by (simp only: run_bars_upt_Suc sum.case)
    have "\<not> (\<exists>st. run_bars cfg price signal atr [0..<n] st0 = Inr st \<and>
        bar cfg price signal atr n st = Inl e)"
      using Inl by simp
    then have "?E (Suc n) \<longleftrightarrow> ?E n"
      by (auto simp: less_Suc_eq)
    with Suc.IH Inl l show ?thesis by simp
  next
    case (Inr st1)
    then have s: "run_bars cfg price signal atr [0..<Suc n] st0 = bar cfg price signal atr n st1"
      by (simp only: run_bars_upt_Suc sum.case)
    from Inr Suc.IH have "\<not> ?E n" by simp
    then have "?E (Suc n) \<longleftrightarrow> bar cfg price signal atr n st1 = Inl e"
      using Inr by (auto simp: less_Suc_eq)
    with s show ?thesis by simp
  qed
qed

lemma run_bars_upt_length:
  "run_bars cfg price signal atr [0..<i] (init cfg) = Inr st \<Longrightarrow> length (equity_curve st) = i"
  using run_bars_equity [of cfg price signal atr "[0..<i]" "init cfg" st]
  by (auto simp: init_def)

section \<open>The ledger invariant\<close>

lemma ledger_inv_init: "ledger_inv 0 (init cfg)"
  by (simp add: ledger_inv_def init_def)

lemma ledger_inv_mark: "ledger_inv n (mark_to_market p st) = ledger_inv n st"
  by (simp add: ledger_inv_def mark_to_market_def)

lemma ledger_exit:
  assumes "ledger_inv i st"
  shows "ledger_mid i (exit_logic cfg i p st)"
proof (cases "position st")
  case None
  with assms show ?thesis
    by (auto simp: ledger_inv_def ledger_mid_def exit_logic_def intro: less_imp_le)
next
  case (Some pos)
  show ?thesis
  proof (cases "exit_reason pos p")
    case None
    with Some assms show ?thesis
      by (auto simp: ledger_inv_def ledger_mid_def exit_logic_def intro: less_imp_le)
  next
    case (Some r)
    with \<open>position st = Some pos\<close> assms show ?thesis
      by (auto simp: ledger_inv_def ledger_mid_def exit_logic_def close_position_def
          Let_def sorted_wrt_append intro: less_imp_le)
  qed
qed

lemma ledger_entry:
  assumes "ledger_mid i st" and "entry_logic cfg signal atr i p st = Inr st'"
  shows "ledger_inv (Suc i) st'"
proof (cases "position st'")
  case None
  with assms show ?thesis
    by (auto simp: ledger_inv_def ledger_mid_def entry_logic_keeps(3) less_Suc_eq_le)
next
  case (Some pos')
  show ?thesis
  proof (cases "position st")
    case None
    with assms Some have "entry_idx pos' = i" "trades st' = trades st"
      by (auto simp: entry_logic_def open_position_def Let_def split: if_splits)
    with assms(1) Some show ?thesis
      by (auto simp: ledger_inv_def ledger_mid_def less_Suc_eq_le)
  next
    case (Some pos)
    with assms(2) have "st' = st"
      by (simp add: entry_logic_def)
    with assms(1) show ?thesis
      by (auto simp: ledger_inv_def ledger_mid_def less_Suc_eq_le intro: less_imp_le)
  qed
qed

lemma ledger_bar:
  assumes "ledger_inv i st" and "bar cfg price signal atr i st = Inr st'"
  shows "ledger_inv (Suc i) st'"
proof -
  let ?p = "price ! i"
  from assms(1) have "ledger_inv i (mark_to_market ?p st)"
    by (simp add: ledger_inv_mark)
  then have "ledger_mid i (exit_logic cfg i ?p (mark_to_market ?p st))"
    by (rule ledger_exit)
  moreover from assms(2)
  have "entry_logic cfg signal atr i ?p (exit_logic cfg i ?p (mark_to_market ?p st)) = Inr st'"
    by (simp add: bar_def Let_def)
  ultimately show ?thesis by (rule ledger_entry)
qed

lemma ledger_run:
  "run_bars cfg price signal atr [0..<n] (init cfg) = Inr st \<Longrightarrow> ledger_inv n st"
proof (induction n arbitrary: st)
  case 0
  then show ?case using ledger_inv_init [of cfg] by auto
next
  case (Suc n)
  from Suc.prems obtain st1 where
    r: "run_bars cfg price signal atr [0..<n] (init cfg) = Inr st1"
    and b: "bar cfg price signal atr n st1 = Inr st"
    by (auto simp: run_bars_append split: sum.splits)
  from ledger_bar [OF Suc.IH [OF r] b] show ?case .
qed

section \<open>The exit logic\<close>

lemma exit_reason_None_iff:
  "exit_reason pos p = None \<longleftrightarrow>
     \<not> ((side pos = 1 \<and> p \<le> stop pos) \<or> (side pos = - 1 \<and> stop pos \<le> p) \<or>
        (side pos = 1 \<and> tp pos \<le> p) \<or> (side pos = - 1 \<and> p \<le> tp pos))"
  by (simp add: exit_reason_def)

lemma exit_reason_Stop_iff:
  "exit_reason pos p = Some Stop \<longleftrightarrow>
     (side pos = 1 \<and> p \<le> stop pos) \<or> (side pos = - 1 \<and> stop pos \<le> p)"
  by (simp add: exit_reason_def)

lemma exit_logic_keep:
  assumes "position st = Some pos" and "exit_reason pos p = None"
  shows "exit_logic cfg i p st = st"
  using assms by (simp add: exit_logic_def)

lemma exit_logic_close:
  assumes "position st = Some pos" and "exit_reason pos p = Some r"
  shows "exit_logic cfg i p st = close_position cfg i p pos st"
  using assms by (simp add: exit_logic_def)

lemma close_position_simps:
  "position (close_position cfg i p pos st) = None"
  "length (trades (close_position cfg i p pos st)) = Suc (length (trades st))"
  "equity_curve (close_position cfg i p pos st) = equity_curve st"
  by (simp_all add: close_position_def Let_def)

section \<open>The entry logic\<close>

lemma entry_logic_opens:
  assumes "position st = None" and "i < length signal" and "signal ! i \<noteq> 0"
    and "i < length atr" and "atr ! i = Some a" and "0 < a"
    and "0 < atr_position_size (balance st) (risk_per_trade cfg) a p (atr_stop_mult cfg)"
  shows "entry_logic cfg signal atr i p st =
     Inr (st\<lparr>position := Some (open_position cfg i p (signal ! i) a
        (atr_position_size (balance st) (risk_per_trade cfg) a p (atr_stop_mult cfg)))\<rparr>)"
  using assms by (simp add: entry_logic_def Let_def)

lemma open_position_simps:
  "entry_idx (open_position cfg i p sd a q) = i"
  "side (open_position cfg i p sd a q) = sd"
  "qty (open_position cfg i p sd a q) = q"
  "entry_price (open_position cfg i p sd a q) =
     (if sd = 1 then p * (1 + slippage_pct cfg) else p * (1 - slippage_pct cfg))"
  by (simp_all add: open_position_def Let_def)

lemma close_position_trades:
  "\<exists>t. trades (close_position cfg i p pos st) = trades st @ [t] \<and>
     tr_exit_idx t = i \<and> tr_entry_idx t = entry_idx pos"
  by (simp add: close_position_def Let_def)

lemma entry_logic_position:
  assumes "position st = None" and "entry_logic cfg signal atr i p st = Inr st'"
    and "position st' = Some pos'"
  shows "\<exists>a q. pos' = open_position cfg i p (signal ! i) a q \<and> 0 < q"
  using assms by (fastforce simp: entry_logic_def Let_def not_le split: if_splits)

lemma open_position_net:
  "entry_price_net (open_position cfg i p sd a q) =
     entry_price (open_position cfg i p sd a q) +
       (\<bar>q\<bar> * entry_price (open_position cfg i p sd a q) * fee_pct cfg / max (1 / 10 ^ 9) \<bar>q\<bar>) *
       (if sd = 1 then 1 else - 1)"
  by (simp add: open_position_def Let_def)

lemma close_position_record:
  "trades (close_position cfg i p pos st) = trades st @
     [\<lparr>tr_entry_idx = entry_idx pos, tr_exit_idx = i, tr_side = side pos,
       tr_entry_price = entry_price pos,
       tr_exit_price = (if side pos = 1 then p * (1 - slippage_pct cfg)
                        else p * (1 + slippage_pct cfg)),
       tr_qty = qty pos,
       tr_pnl = ((if side pos = 1 then p * (1 - slippage_pct cfg)
                  else p * (1 + slippage_pct cfg)) - entry_price_net pos) * qty pos *
                real_of_int (side pos) -
                \<bar>qty pos\<bar> * (if side pos = 1 then p * (1 - slippage_pct cfg)
                  else p * (1 + slippage_pct cfg)) * fee_pct cfg,
       tr_ret = (((if side pos = 1 then p * (1 - slippage_pct cfg)
                  else p * (1 + slippage_pct cfg)) - entry_price_net pos) * qty pos *
                real_of_int (side pos) -
                \<bar>qty pos\<bar> * (if side pos = 1 then p * (1 - slippage_pct cfg)
                  else p * (1 + slippage_pct cfg)) * fee_pct cfg) /
                max (1 / 10 ^ 9) (initial_capital cfg)\<rparr>]"
  "balance (close_position cfg i p pos st) = balance st +
     (((if side pos = 1 then p * (1 - slippage_pct cfg)
        else p * (1 + slippage_pct cfg)) - entry_price_net pos) * qty pos *
      real_of_int (side pos) -
      \<bar>qty pos\<bar> * (if side pos = 1 then p * (1 - slippage_pct cfg)
        else p * (1 + slippage_pct cfg)) * fee_pct cfg)"
  by (simp_all add: close_position_def Let_def)

lemma entry_logic_after:
  assumes "entry_logic cfg signal atr i p st = Inr st'"
  shows "position st' = position st \<or> (\<exists>pos'. position st' = Some pos' \<and> entry_idx pos' = i)"
  using assms
  by (auto simp: entry_logic_def Let_def open_position_simps split: option.splits if_splits)

section \<open>Comparing the two runs\<close>

lemma exit_reason_cong:
  assumes "side p1 = side p2" and "stop p1 = stop p2" and "tp p1 = tp p2"
  shows "exit_reason p1 p = exit_reason p2 p"
  using assms by (simp add: exit_reason_def)

lemma exit_reason_side:
  "exit_reason pos p = Some r \<Longrightarrow> side pos = 1 \<or> side pos = - 1"
  by (auto simp: exit_reason_def split: if_splits)

lemma fill_positive:
  fixes p s :: real
  assumes "0 < p" and "0 \<le> s" and "s < 1"
  shows "0 < p * (1 - s)" and "0 < p * (1 + s)"
  using assms by simp_all

lemma pnl_fee_mono:
  fixes q ep xp f1 f2 m :: real
  assumes f: "f1 \<le> f2" and q: "0 < q" and ep: "0 < ep" and xp: "0 < xp" and m: "0 < m"
    and sd: "sd = 1 \<or> sd = - 1"
  shows "(xp - (ep + (\<bar>q\<bar> * ep * f2 / m) * (if sd = 1 then 1 else - 1))) * q * real_of_int sd
           - \<bar>q\<bar> * xp * f2
         \<le> (xp - (ep + (\<bar>q\<bar> * ep * f1 / m) * (if sd = (1::int) then 1 else - 1))) * q *
             real_of_int sd - \<bar>q\<bar> * xp * f1"
proof -
  define c1 where "c1 = \<bar>q\<bar> * ep * f1 / m"
  define c2 where "c2 = \<bar>q\<bar> * ep * f2 / m"
  from q have a: "\<bar>q\<bar> = q" by simp
  from f q ep have "q * ep * f1 \<le> q * ep * f2"
    by (simp add: mult_left_mono)
  with m have "c1 \<le> c2"
    by (simp add: c1_def c2_def a divide_right_mono)
  with q have c: "c1 * q \<le> c2 * q"
    by (simp add: mult_right_mono)
  from f q xp have x: "q * xp * f1 \<le> q * xp * f2"
    by (simp add: mult_left_mono)
  have "(xp - (ep + c2 * (if sd = 1 then 1 else - 1))) * q * real_of_int sd - q * xp * f2
      \<le> (xp - (ep + c1 * (if sd = 1 then 1 else - 1))) * q * real_of_int sd - q * xp * f1"
    using sd
  proof
    assume "sd = 1"
    with c x show ?thesis
      by (simp add: algebra_simps)
  next
    assume "sd = - 1"
    with c x show ?thesis
      by (simp add: algebra_simps)
  qed
  then show ?thesis
    by (simp only: c1_def c2_def a)
qed

lemma open_position_levels:
  "stop (open_position cfg i p sd a q) =
     entry_price (open_position cfg i p sd a q) - real_of_int sd * (a * atr_stop_mult cfg)"
  "tp (open_position cfg i p sd a q) =
     entry_price (open_position cfg i p sd a q) +
       real_of_int sd * (a * atr_stop_mult cfg * tp_mult cfg)"
  by (simp_all add: open_position_def Let_def)

lemma open_position_net_ok:
  "net_ok f (open_position (cfg\<lparr>fee_pct := f\<rparr>) i p sd a q)"
  unfolding net_ok_def
  using open_position_net [of "cfg\<lparr>fee_pct := f\<rparr>" i p sd a q]
  by (simp add: open_position_simps)

lemma exit_logic_ledger:
  "trades (exit_logic cfg i p st) = trades st \<or>
   (\<exists>t. trades (exit_logic cfg i p st) = trades st @ [t])"
  by (simp add: exit_logic_def close_position_def Let_def split: option.splits)

lemma bar_ledger:
  assumes "bar cfg price signal atr i st = Inr st'"
  shows "trades st' = trades st \<or> (\<exists>t. trades st' = trades st @ [t])"
proof -
  let ?m = "mark_to_market (price ! i) st"
  from assms have e: "entry_logic cfg signal atr i (price ! i)
      (exit_logic cfg i (price ! i) ?m) = Inr st'"
    by (simp add: bar_def Let_def)
  from exit_logic_ledger [of cfg i "price ! i" ?m] entry_logic_keeps(3) [OF e]
  show ?thesis by (simp add: mark_to_market_simps)
qed

lemma pre_rel_mark:
  assumes "pre_rel P f1 f2 s1 s2"
  shows "pre_rel P f1 f2 (mark_to_market p s1) (mark_to_market p s2)"
proof (cases "position s2")
  case None
  with assms have "position s1 = None"
    by (cases "position s1") (simp_all add: pre_rel_def)
  with None assms show ?thesis
    by (simp add: pre_rel_def mark_to_market_def mtm_def)
next
  case (Some p2)
  with assms obtain p1 where "position s1 = Some p1"
    by (cases "position s1") (simp_all add: pre_rel_def)
  with Some assms show ?thesis
    by (simp add: pre_rel_def mark_to_market_def mtm_def same_but_net_def)
qed

lemma pre_rel_exit:
  assumes R: "pre_rel P f1 f2 s1 s2"
    and Pf: "P \<Longrightarrow> f1 \<le> f2" and Pp: "P \<Longrightarrow> 0 < p"
    and Ps: "P \<Longrightarrow> 0 \<le> slippage_pct cfg" "P \<Longrightarrow> slippage_pct cfg < 1"
  shows "pre_rel P f1 f2 (exit_logic (cfg\<lparr>fee_pct := f1\<rparr>) i p s1)
           (exit_logic (cfg\<lparr>fee_pct := f2\<rparr>) i p s2) \<or>
         post_rel P (exit_logic (cfg\<lparr>fee_pct := f1\<rparr>) i p s1)
           (exit_logic (cfg\<lparr>fee_pct := f2\<rparr>) i p s2)"
proof (cases "position s2")
  case None
  with R have "position s1 = None"
    by (cases "position s1") (simp_all add: pre_rel_def)
  with None R show ?thesis
    by (simp add: exit_logic_def)
next
  case (Some p2)
  with R obtain p1 where p1: "position s1 = Some p1"
    by (cases "position s1") (simp_all add: pre_rel_def)
  from R Some p1 have sb: "same_but_net p1 p2" and n1: "net_ok f1 p1" and n2: "net_ok f2 p2"
    and q: "0 < qty p2" and ep: "P \<longrightarrow> 0 < entry_price p2"
    and t: "trades s1 = []" "trades s2 = []"
    by (simp_all add: pre_rel_def)
  from sb have eqs: "side p1 = side p2" "qty p1 = qty p2" "entry_price p1 = entry_price p2"
    "stop p1 = stop p2" "tp p1 = tp p2" "entry_idx p1 = entry_idx p2"
    by (simp_all add: same_but_net_def)
  from eqs(1,4,5) have er: "exit_reason p1 p = exit_reason p2 p"
    by (rule exit_reason_cong)
  show ?thesis
  proof (cases "exit_reason p2 p")
    case None
    with er Some p1 R show ?thesis
      by (simp add: exit_logic_keep)
  next
    case (Some r)
    let ?c1 = "cfg\<lparr>fee_pct := f1\<rparr>"
    let ?c2 = "cfg\<lparr>fee_pct := f2\<rparr>"
    from Some er \<open>position s2 = Some p2\<close> p1
    have x1: "exit_logic ?c1 i p s1 = close_position ?c1 i p p1 s1"
      and x2: "exit_logic ?c2 i p s2 = close_position ?c2 i p p2 s2"
      by (simp_all add: exit_logic_close)
    from Some have sd: "side p2 = 1 \<or> side p2 = - 1"
      by (rule exit_reason_side)
    define xp where
      "xp = (if side p2 = 1 then p * (1 - slippage_pct cfg) else p * (1 + slippage_pct cfg))"
    define m where "m = max (1 / 10 ^ 9) \<bar>qty p2\<bar>"
    have "(0::real) < 1 / 10 ^ 9" by simp
    then have m0: "0 < m" by (simp add: m_def less_max_iff_disj)
    from n1 have e1: "entry_price_net p1 = entry_price p2 +
        (\<bar>qty p2\<bar> * entry_price p2 * f1 / m) * (if side p2 = 1 then 1 else - 1)"
      by (simp add: net_ok_def eqs m_def)
    from n2 have e2: "entry_price_net p2 = entry_price p2 +
        (\<bar>qty p2\<bar> * entry_price p2 * f2 / m) * (if side p2 = 1 then 1 else - 1)"
      by (simp add: net_ok_def m_def)
    have h1: "hd (trades (close_position ?c1 i p p1 s1)) =
        \<lparr>tr_entry_idx = entry_idx p2, tr_exit_idx = i, tr_side = side p2,
          tr_entry_price = entry_price p2, tr_exit_price = xp, tr_qty = qty p2,
          tr_pnl = (xp - entry_price_net p1) * qty p2 * real_of_int (side p2) -
                   \<bar>qty p2\<bar> * xp * f1,
          tr_ret = ((xp - entry_price_net p1) * qty p2 * real_of_int (side p2) -
                   \<bar>qty p2\<bar> * xp * f1) / max (1 / 10 ^ 9) (initial_capital cfg)\<rparr>"
      by (simp add: close_position_def Let_def t eqs xp_def)
    have h2: "hd (trades (close_position ?c2 i p p2 s2)) =
        \<lparr>tr_entry_idx = entry_idx p2, tr_exit_idx = i, tr_side = side p2,
          tr_entry_price = entry_price p2, tr_exit_price = xp, tr_qty = qty p2,
          tr_pnl = (xp - entry_price_net p2) * qty p2 * real_of_int (side p2) -
                   \<bar>qty p2\<bar> * xp * f2,
          tr_ret = ((xp - entry_price_net p2) * qty p2 * real_of_int (side p2) -
                   \<bar>qty p2\<bar> * xp * f2) / max (1 / 10 ^ 9) (initial_capital cfg)\<rparr>"
      by (simp add: close_position_def Let_def t xp_def)
    have mono: "tr_pnl (hd (trades (close_position ?c2 i p p2 s2))) \<le>
        tr_pnl (hd (trades (close_position ?c1 i p p1 s1)))" if P
    proof -
      from that Pp Ps have "0 < xp"
        using fill_positive [of p "slippage_pct cfg"] by (simp add: xp_def)
      from pnl_fee_mono [OF Pf [OF that] q _ this m0 sd] that ep
      show ?thesis
        by (simp add: h1 h2 e1 e2)
    qed
    have ne: "trades (close_position ?c1 i p p1 s1) \<noteq> []"
      "trades (close_position ?c2 i p p2 s2) \<noteq> []"
      by (simp_all add: close_position_def Let_def)
    have sf: "same_fill (hd (trades (close_position ?c1 i p p1 s1)))
        (hd (trades (close_position ?c2 i p p2 s2)))"
      by (simp add: h1 h2 same_fill_def)
    from ne sf mono
    have "post_rel P (close_position ?c1 i p p1 s1) (close_position ?c2 i p p2 s2)"
      unfolding post_rel_def by blast
    then show ?thesis by (simp add: x1 x2)
  qed
qed

lemma pre_rel_entry:
  assumes R: "pre_rel P f1 f2 s1 s2"
    and Pp: "P \<Longrightarrow> 0 < p"
    and Ps: "P \<Longrightarrow> 0 \<le> slippage_pct cfg" "P \<Longrightarrow> slippage_pct cfg < 1"
    and e1: "entry_logic (cfg\<lparr>fee_pct := f1\<rparr>) signal atr i p s1 = Inr s1'"
    and e2: "entry_logic (cfg\<lparr>fee_pct := f2\<rparr>) signal atr i p s2 = Inr s2'"
  shows "pre_rel P f1 f2 s1' s2'"
proof (cases "position s2")
  case (Some p2)
  with R obtain p1 where "position s1 = Some p1"
    by (cases "position s1") (simp_all add: pre_rel_def)
  with Some e1 e2 have "s1' = s1" "s2' = s2"
    by (simp_all add: entry_logic_def)
  with R show ?thesis by simp
next
  case None
  with R have n1: "position s1 = None"
    by (cases "position s1") (simp_all add: pre_rel_def)
  from R have b: "balance s1 = balance s2"
    and t: "trades s1 = []" "trades s2 = []"
    and q: "equity_curve s1 = equity_curve s2"
    by (simp_all add: pre_rel_def)
  let ?c1 = "cfg\<lparr>fee_pct := f1\<rparr>"
  let ?c2 = "cfg\<lparr>fee_pct := f2\<rparr>"
  define a where "a = (case atr ! i of None \<Rightarrow> (0::real) | Some v \<Rightarrow> v)"
  define qn where
    "qn = atr_position_size (balance s2) (risk_per_trade cfg) a p (atr_stop_mult cfg)"
  show ?thesis
  proof (cases "i < length signal \<and> signal ! i \<noteq> 0 \<and> i < length atr \<and> 0 < a \<and> 0 < qn")
    case False
    with None n1 e1 e2 b have "s1' = s1" "s2' = s2"
      by (auto simp: entry_logic_def Let_def a_def qn_def split: if_splits)
    with R show ?thesis by simp
  next
    case True
    with n1 e1 b
    have s1': "s1' = s1\<lparr>position := Some (open_position ?c1 i p (signal ! i) a qn)\<rparr>"
      by (simp add: entry_logic_def Let_def a_def qn_def)
    from True None e2
    have s2': "s2' = s2\<lparr>position := Some (open_position ?c2 i p (signal ! i) a qn)\<rparr>"
      by (simp add: entry_logic_def Let_def a_def qn_def)
    have sb: "same_but_net (open_position ?c1 i p (signal ! i) a qn)
        (open_position ?c2 i p (signal ! i) a qn)"
      by (simp add: same_but_net_def open_position_simps open_position_levels)
    have ep: "0 < entry_price (open_position ?c2 i p (signal ! i) a qn)" if P
      using fill_positive [of p "slippage_pct cfg"] Pp Ps that
      by (simp add: open_position_simps)
    from True have "0 < qty (open_position ?c2 i p (signal ! i) a qn)"
      by (simp add: open_position_simps)
    with sb ep have "pos_pre P f1 f2 (Some (open_position ?c1 i p (signal ! i) a qn))
        (Some (open_position ?c2 i p (signal ! i) a qn))"
      by (simp add: open_position_net_ok)
    with b t q show ?thesis
      by (simp add: pre_rel_def s1' s2')
  qed
qed

lemma post_rel_grow:
  assumes "post_rel P s1 s2"
    and "trades s1' = trades s1 \<or> (\<exists>t. trades s1' = trades s1 @ [t])"
    and "trades s2' = trades s2 \<or> (\<exists>t. trades s2' = trades s2 @ [t])"
  shows "post_rel P s1' s2'"
proof -
  from assms(1) have ne: "trades s1 \<noteq> []" "trades s2 \<noteq> []"
    by (simp_all add: post_rel_def)
  from assms(2) ne(1) have h1: "trades s1' \<noteq> [] \<and> hd (trades s1') = hd (trades s1)"
    by auto
  from assms(3) ne(2) have h2: "trades s2' \<noteq> [] \<and> hd (trades s2') = hd (trades s2)"
    by auto
  from assms(1) h1 h2 show ?thesis
    by (simp add: post_rel_def)
qed

lemma fee_inv_bar:
  assumes R: "pre_rel P f1 f2 s1 s2 \<or> post_rel P s1 s2"
    and Pf: "P \<Longrightarrow> f1 \<le> f2" and Pp: "P \<Longrightarrow> 0 < price ! i"
    and Ps: "P \<Longrightarrow> 0 \<le> slippage_pct cfg" "P \<Longrightarrow> slippage_pct cfg < 1"
    and b1: "bar (cfg\<lparr>fee_pct := f1\<rparr>) price signal atr i s1 = Inr s1'"
    and b2: "bar (cfg\<lparr>fee_pct := f2\<rparr>) price signal atr i s2 = Inr s2'"
  shows "pre_rel P f1 f2 s1' s2' \<or> post_rel P s1' s2'"
  using R
proof
  assume "post_rel P s1 s2"
  from post_rel_grow [OF this bar_ledger [OF b1] bar_ledger [OF b2]]
  show ?thesis by simp
next
  assume pre: "pre_rel P f1 f2 s1 s2"
  let ?p = "price ! i"
  let ?c1 = "cfg\<lparr>fee_pct := f1\<rparr>"
  let ?c2 = "cfg\<lparr>fee_pct := f2\<rparr>"
  let ?x1 = "exit_logic ?c1 i ?p (mark_to_market ?p s1)"
  let ?x2 = "exit_logic ?c2 i ?p (mark_to_market ?p s2)"
  from b1 have e1: "entry_logic ?c1 signal atr i ?p ?x1 = Inr s1'"
    by (simp add: bar_def Let_def)
  from b2 have e2: "entry_logic ?c2 signal atr i ?p ?x2 = Inr s2'"
    by (simp add: bar_def Let_def)
  from pre have "pre_rel P f1 f2 (mark_to_market ?p s1) (mark_to_market ?p s2)"
    by (rule pre_rel_mark)
  from pre_rel_exit [OF this Pf Pp Ps, where i = i]
  have "pre_rel P f1 f2 ?x1 ?x2 \<or> post_rel P ?x1 ?x2" by simp
  then show ?thesis
  proof
    assume "pre_rel P f1 f2 ?x1 ?x2"
    from pre_rel_entry [OF this Pp Ps e1 e2] show ?thesis by simp
  next
    assume po: "post_rel P ?x1 ?x2"
    from entry_logic_keeps(3) [OF e1] entry_logic_keeps(3) [OF e2]
    have "trades s1' = trades ?x1" "trades s2' = trades ?x2" by simp_all
    with post_rel_grow [OF po, of s1' s2'] show ?thesis by simp
  qed
qed

lemma fee_inv_run:
  assumes Pf: "P \<Longrightarrow> f1 \<le> f2" and Pp: "P \<Longrightarrow> \<forall>i<length price. 0 < price ! i"
    and Ps: "P \<Longrightarrow> 0 \<le> slippage_pct cfg" "P \<Longrightarrow> slippage_pct cfg < 1"
  shows "n \<le> length price \<Longrightarrow>
     run_bars (cfg\<lparr>fee_pct := f1\<rparr>) price signal atr [0..<n] (init (cfg\<lparr>fee_pct := f1\<rparr>)) = Inr s1 \<Longrightarrow>
     run_bars (cfg\<lparr>fee_pct := f2\<rparr>) price signal atr [0..<n] (init (cfg\<lparr>fee_pct := f2\<rparr>)) = Inr s2 \<Longrightarrow>
     pre_rel P f1 f2 s1 s2 \<or> post_rel P s1 s2"
proof (induction n arbitrary: s1 s2)
  case 0
  then have "s1 = init (cfg\<lparr>fee_pct := f1\<rparr>)" "s2 = init (cfg\<lparr>fee_pct := f2\<rparr>)"
    by simp_all
  then have "pre_rel P f1 f2 s1 s2"
    by (simp add: pre_rel_def init_def)
  then show ?case by simp
next
  case (Suc n)
  let ?c1 = "cfg\<lparr>fee_pct := f1\<rparr>"
  let ?c2 = "cfg\<lparr>fee_pct := f2\<rparr>"
  from Suc.prems(2) obtain m1 where
    r1: "run_bars ?c1 price signal atr [0..<n] (init ?c1) = Inr m1"
    and b1: "bar ?c1 price signal atr n m1 = Inr s1"
    by (auto simp: run_bars_append split: sum.splits)
  from Suc.prems(3) obtain m2 where
    r2: "run_bars ?c2 price signal atr [0..<n] (init ?c2) = Inr m2"
    and b2: "bar ?c2 price signal atr n m2 = Inr s2"
    by (auto simp: run_bars_append split: sum.splits)
  from Suc.prems(1) have n: "n \<le> length price" "n < length price" by simp_all
  from Suc.IH [OF n(1) r1 r2] have R: "pre_rel P f1 f2 m1 m2 \<or> post_rel P m1 m2" .
  have p: "0 < price ! n" if P
    using Pp [OF that] n(2) by simp
  from fee_inv_bar [OF R Pf p Ps b1 b2] show ?case by simp
qed

section \<open>Claims\<close>

text \<open>
  C3, as stated, fails in its last part: the engine records no exit reason. The local
  \<^verbatim>\<open>exit_reason\<close> is only tested for truth, and \<^verbatim>\<open>TradeResult\<close> has no field for it.
  Of the two runs below the first closes its position on a bar where the stop and the
  take-profit condition both hold, the second on a bar where only the take-profit
  condition holds; the two calls return the same equity curve and the same ledger.
\<close>

theorem exit_reason_not_recorded_counterexample:
  "simulate tie_cfg [100] [1] (Some [Some 1]) = Inr tie_st \<and>
   position tie_st = Some tie_pos \<and>
   (side tie_pos = 1 \<and> (100::real) \<le> stop tie_pos) \<and>
   (side tie_pos = 1 \<and> tp tie_pos \<le> (100::real)) \<and>
   simulate tponly_cfg [100] [1] (Some [Some 1]) = Inr tponly_st \<and>
   position tponly_st = Some tponly_pos \<and>
   side tponly_pos = 1 \<and> stop tponly_pos < (100::real) \<and> tp tponly_pos \<le> (100::real) \<and>
   backtest tie_cfg [100, 100] [1, 0] (Some [Some 1, Some 1]) =
     Inr ([1000, 1000], [tie_trade]) \<and>
   backtest tponly_cfg [100, 100] [1, 0] (Some [Some 1, Some 1]) =
     Inr ([1000, 1000], [tie_trade])"
  by (simp add: engine_defs tie_defs upt_rec)

text \<open>
  C3, amended. For every open position and every bar, the engine exits on that bar
  exactly when the close-only stop condition or the close-only take-profit condition
  holds. If one of them holds, every completed bar has appended exactly one trade
  (entry index of the position, exit index the bar, side, quantity and entry price of
  the position, the exit fill and the realized result of lines 130-133), has added
  its result to the balance, and ends flat or with a position opened on that bar. If
  none holds, the bar completes and leaves position, balance and ledger as they are.
  When both hold on the same bar the position is closed once, by that same record:
  the ledger says nothing about the reason.
\<close>

theorem exit_iff_stop_or_take_profit:
  assumes "position st = Some pos"
  shows
   "((side pos = 1 \<and> price ! i \<le> stop pos) \<or> (side pos = - 1 \<and> stop pos \<le> price ! i) \<or>
     (side pos = 1 \<and> tp pos \<le> price ! i) \<or> (side pos = - 1 \<and> price ! i \<le> tp pos) \<longrightarrow>
       (\<forall>st'. bar cfg price signal atr i st = Inr st' \<longrightarrow>
          (\<exists>t. trades st' = trades st @ [t] \<and>
             tr_entry_idx t = entry_idx pos \<and> tr_exit_idx t = i \<and>
             tr_side t = side pos \<and> tr_qty t = qty pos \<and>
             tr_entry_price t = entry_price pos \<and>
             tr_exit_price t = (if side pos = 1 then price ! i * (1 - slippage_pct cfg)
                                else price ! i * (1 + slippage_pct cfg)) \<and>
             tr_pnl t = (tr_exit_price t - entry_price_net pos) * qty pos *
                          real_of_int (side pos) -
                        \<bar>qty pos\<bar> * tr_exit_price t * fee_pct cfg \<and>
             balance st' = balance st + tr_pnl t) \<and>
          (position st' = None \<or> (\<exists>pos'. position st' = Some pos' \<and> entry_idx pos' = i)))) \<and>
    (\<not> ((side pos = 1 \<and> price ! i \<le> stop pos) \<or> (side pos = - 1 \<and> stop pos \<le> price ! i) \<or>
        (side pos = 1 \<and> tp pos \<le> price ! i) \<or> (side pos = - 1 \<and> price ! i \<le> tp pos)) \<longrightarrow>
       (\<exists>st'. bar cfg price signal atr i st = Inr st' \<and> trades st' = trades st \<and>
          position st' = Some pos \<and> balance st' = balance st \<and>
          equity_curve st' = equity_curve st @
            [balance st + (price ! i - entry_price pos) * qty pos * real_of_int (side pos)]))"
proof -
  let ?p = "price ! i"
  let ?m = "mark_to_market ?p st"
  let ?c = "(side pos = 1 \<and> ?p \<le> stop pos) \<or> (side pos = - 1 \<and> stop pos \<le> ?p) \<or>
     (side pos = 1 \<and> tp pos \<le> ?p) \<or> (side pos = - 1 \<and> ?p \<le> tp pos)"
  have n: "exit_reason pos ?p = None \<longleftrightarrow> \<not> ?c"
    by (rule exit_reason_None_iff)
  from assms have pm: "position ?m = Some pos"
    by (simp add: mark_to_market_simps)
  have yes: "(\<exists>t. trades st' = trades st @ [t] \<and>
             tr_entry_idx t = entry_idx pos \<and> tr_exit_idx t = i \<and>
             tr_side t = side pos \<and> tr_qty t = qty pos \<and>
             tr_entry_price t = entry_price pos \<and>
             tr_exit_price t = (if side pos = 1 then ?p * (1 - slippage_pct cfg)
                                else ?p * (1 + slippage_pct cfg)) \<and>
             tr_pnl t = (tr_exit_price t - entry_price_net pos) * qty pos *
                          real_of_int (side pos) -
                        \<bar>qty pos\<bar> * tr_exit_price t * fee_pct cfg \<and>
             balance st' = balance st + tr_pnl t) \<and>
          (position st' = None \<or> (\<exists>pos'. position st' = Some pos' \<and> entry_idx pos' = i))"
    if c: ?c and b: "bar cfg price signal atr i st = Inr st'" for st'
  proof -
    from c n obtain r where "exit_reason pos ?p = Some r" by auto
    with pm have x: "exit_logic cfg i ?p ?m = close_position cfg i ?p pos ?m"
      by (simp add: exit_logic_close)
    from b have e: "entry_logic cfg signal atr i ?p (close_position cfg i ?p pos ?m) = Inr st'"
      by (simp add: bar_def Let_def x)
    from entry_logic_keeps(2,3) [OF e]
    have k: "balance st' = balance (close_position cfg i ?p pos ?m)"
      "trades st' = trades (close_position cfg i ?p pos ?m)"
      by simp_all
    have "position (close_position cfg i ?p pos ?m) = None"
      by (simp add: close_position_simps)
    with entry_logic_after [OF e]
    have a: "position st' = None \<or> (\<exists>pos'. position st' = Some pos' \<and> entry_idx pos' = i)"
      by auto
    show ?thesis
      using a by (simp add: k close_position_record mark_to_market_simps)
  qed
  have no: "\<exists>st'. bar cfg price signal atr i st = Inr st' \<and> trades st' = trades st \<and>
          position st' = Some pos \<and> balance st' = balance st \<and>
          equity_curve st' = equity_curve st @
            [balance st + (?p - entry_price pos) * qty pos * real_of_int (side pos)]"
    if c: "\<not> ?c"
  proof -
    from c n have "exit_reason pos ?p = None" by blast
    with pm have x: "exit_logic cfg i ?p ?m = ?m"
      by (simp add: exit_logic_keep)
    from pm have "entry_logic cfg signal atr i ?p ?m = Inr ?m"
      by (simp add: entry_logic_def)
    then have "bar cfg price signal atr i st = Inr ?m"
      by (simp add: bar_def Let_def x)
    with assms show ?thesis
      by (simp add: mark_to_market_simps mtm_def)
  qed
  from yes no show ?thesis by blast
qed

theorem exit_iff_stop_or_take_profit_witness:
  "position tie_st = Some tie_pos \<and>
   (side tie_pos = 1 \<and> [100, 100 :: real] ! 1 \<le> stop tie_pos) \<and>
   (side tie_pos = 1 \<and> tp tie_pos \<le> [100, 100 :: real] ! 1) \<and>
   bar tie_cfg [100, 100] [1, 0] [Some 1, Some 1] 1 tie_st = Inr tie_st2 \<and>
   trades tie_st2 = trades tie_st @ [tie_trade] \<and>
   tr_entry_idx tie_trade = entry_idx tie_pos \<and> tr_exit_idx tie_trade = 1 \<and>
   balance tie_st2 = balance tie_st + tr_pnl tie_trade \<and>
   position tie_st2 = None \<and>
   position demo_st1 = Some demo_pos1 \<and> side demo_pos1 = 1 \<and>
   stop demo_pos1 < [100, 100 :: real] ! 1 \<and> [100, 100 :: real] ! 1 < tp demo_pos1 \<and>
   bar (demo_cfg 0) [100, 100] demo_signal demo_atr 1 demo_st1 = Inr hold_st \<and>
   trades hold_st = trades demo_st1 \<and> position hold_st = Some demo_pos1 \<and>
   balance hold_st = balance demo_st1"
proof -
  have h1: "position tie_st = Some tie_pos"
    by (simp add: tie_defs)
  have c1: "(side tie_pos = 1 \<and> [100, 100 :: real] ! 1 \<le> stop tie_pos) \<and>
      (side tie_pos = 1 \<and> tp tie_pos \<le> [100, 100 :: real] ! 1)"
    by (simp add: tie_defs)
  have b1: "bar tie_cfg [100, 100] [1, 0] [Some 1, Some 1] 1 tie_st = Inr tie_st2"
    by (simp add: engine_defs tie_defs)
  from exit_iff_stop_or_take_profit [OF h1, of "[100, 100]" 1 tie_cfg "[1, 0]" "[Some 1, Some 1]"] c1 b1
  obtain t where t: "trades tie_st2 = trades tie_st @ [t]"
    "tr_entry_idx t = entry_idx tie_pos" "tr_exit_idx t = 1"
    "balance tie_st2 = balance tie_st + tr_pnl t"
    by blast
  have "trades tie_st2 = trades tie_st @ [tie_trade]"
    by (simp add: tie_defs)
  with t(1) have "t = tie_trade" by simp
  with t have a1: "trades tie_st2 = trades tie_st @ [tie_trade] \<and>
      tr_entry_idx tie_trade = entry_idx tie_pos \<and> tr_exit_idx tie_trade = 1 \<and>
      balance tie_st2 = balance tie_st + tr_pnl tie_trade"
    by simp
  have f1: "position tie_st2 = None"
    by (simp add: tie_defs)
  have h2: "position demo_st1 = Some demo_pos1"
    by (simp add: demo_defs)
  have c2: "side demo_pos1 = 1 \<and> stop demo_pos1 < [100, 100 :: real] ! 1 \<and>
      [100, 100 :: real] ! 1 < tp demo_pos1"
    by (simp add: demo_defs)
  then have n2: "\<not> ((side demo_pos1 = 1 \<and> [100, 100] ! 1 \<le> stop demo_pos1) \<or>
      (side demo_pos1 = - 1 \<and> stop demo_pos1 \<le> [100, 100] ! 1) \<or>
      (side demo_pos1 = 1 \<and> tp demo_pos1 \<le> [100, 100] ! 1) \<or>
      (side demo_pos1 = - 1 \<and> [100, 100] ! 1 \<le> tp demo_pos1))"
    by simp
  from exit_iff_stop_or_take_profit [OF h2, of "[100, 100]" 1 "demo_cfg 0" demo_signal demo_atr] n2
  obtain st' where s: "bar (demo_cfg 0) [100, 100] demo_signal demo_atr 1 demo_st1 = Inr st'"
    "trades st' = trades demo_st1" "position st' = Some demo_pos1"
    "balance st' = balance demo_st1"
    by blast
  have "bar (demo_cfg 0) [100, 100] demo_signal demo_atr 1 demo_st1 = Inr hold_st"
    by (simp add: engine_defs demo_defs tie_defs)
  with s have a2: "bar (demo_cfg 0) [100, 100] demo_signal demo_atr 1 demo_st1 = Inr hold_st \<and>
      trades hold_st = trades demo_st1 \<and> position hold_st = Some demo_pos1 \<and>
      balance hold_st = balance demo_st1"
    by simp
  from h1 c1 b1 a1 f1 h2 c2 a2 show ?thesis by blast
qed

text \<open>
  C2. Every bar that completes appends exactly one value to the equity curve, and
  that value is computed from the state the bar starts in, before the exit and the
  entry logic: the balance plus \<open>(close - entry_price) * quantity * side\<close> when a
  position is open (the entry price, not the net entry price), the balance alone
  when flat. Hence every returned equity curve has the length of the price series;
  and a run whose signal and volatility series cover the price series does return.
\<close>

theorem equity_one_value_per_bar:
  "(bar cfg price signal atr i st = Inr st' \<longrightarrow>
      equity_curve st' = equity_curve st @
        [case position st of
           Some pos \<Rightarrow>
             balance st + (price ! i - entry_price pos) * qty pos * real_of_int (side pos)
         | None \<Rightarrow> balance st]) \<and>
   (backtest cfg price signal ind = Inr (eq, tr) \<longrightarrow> length eq = length price) \<and>
   (length price \<le> length signal \<and> length price \<le> length (atr_of ind (length price)) \<longrightarrow>
      (\<exists>eq' tr'. backtest cfg price signal ind = Inr (eq', tr')))"
proof (intro conjI impI)
  assume "bar cfg price signal atr i st = Inr st'"
  from bar_equity [OF this]
  show "equity_curve st' = equity_curve st @
        [case position st of
           Some pos \<Rightarrow>
             balance st + (price ! i - entry_price pos) * qty pos * real_of_int (side pos)
         | None \<Rightarrow> balance st]"
    by (simp add: mtm_def)
next
  assume "backtest cfg price signal ind = Inr (eq, tr)"
  then show "length eq = length price"
    by (auto simp: backtest_Inr simulate_equity_length)
next
  assume "length price \<le> length signal \<and> length price \<le> length (atr_of ind (length price))"
  then obtain st0 where "simulate cfg price signal ind = Inr st0"
    using simulate_total by blast
  then show "\<exists>eq' tr'. backtest cfg price signal ind = Inr (eq', tr')"
    by (simp add: backtest_def)
qed

theorem equity_one_value_per_bar_witness:
  "bar (demo_cfg 0) demo_price demo_signal demo_atr 1 demo_st1 = Inr demo_st2 \<and>
   equity_curve demo_st2 = equity_curve demo_st1 @ [1000 + (99 - 100) * 500 * 1] \<and>
   backtest (demo_cfg 0) demo_price demo_signal (Some demo_atr) =
     Inr ([1000, 500, - 11750], [demo_trade1, demo_trade2]) \<and>
   length [1000, 500, - 11750 :: real] = length demo_price \<and>
   length demo_price \<le> length demo_signal \<and>
   length demo_price \<le> length (atr_of (Some demo_atr) (length demo_price))"
proof -
  have b: "bar (demo_cfg 0) demo_price demo_signal demo_atr 1 demo_st1 = Inr demo_st2"
    by (simp add: engine_defs demo_defs)
  have r: "backtest (demo_cfg 0) demo_price demo_signal (Some demo_atr) =
     Inr ([1000, 500, - 11750], [demo_trade1, demo_trade2])"
    by (simp add: engine_defs demo_defs upt_rec)
  from equity_one_value_per_bar
    [of "demo_cfg 0" demo_price demo_signal demo_atr 1 demo_st1 demo_st2 "Some demo_atr"
      "[1000, 500, - 11750]" "[demo_trade1, demo_trade2]"] b r
  show ?thesis
    by (simp add: demo_defs atr_of_def)
qed

text \<open>
  C9. For a non-empty price series, the first value of a returned equity curve is the
  initial capital: the run starts flat with the balance at the initial capital, and
  bar 0 marks to market before its entry logic.
\<close>

theorem first_equity_is_initial_capital:
  assumes "price \<noteq> []" and "backtest cfg price signal ind = Inr (eq, tr)"
  shows "eq \<noteq> [] \<and> eq ! 0 = initial_capital cfg"
proof -
  from assms(2) obtain st where s: "simulate cfg price signal ind = Inr st"
    and eq: "eq = equity_curve st"
    by (auto simp: backtest_Inr)
  from assms(1) have u: "[0..<length price] = 0 # [Suc 0..<length price]"
    by (simp add: upt_rec)
  let ?atr = "atr_of ind (length price)"
  from s obtain st1 where b: "bar cfg price signal ?atr 0 (init cfg) = Inr st1"
    and r: "run_bars cfg price signal ?atr [Suc 0..<length price] st1 = Inr st"
    unfolding simulate_def u by (auto split: sum.splits)
  from run_bars_equity [OF r] bar0_equity [OF b]
  obtain ys where "equity_curve st = [initial_capital cfg] @ ys" by auto
  with eq show ?thesis by simp
qed

theorem first_equity_is_initial_capital_witness:
  "demo_price \<noteq> [] \<and>
   backtest (demo_cfg 0) demo_price demo_signal (Some demo_atr) =
     Inr ([1000, 500, - 11750], [demo_trade1, demo_trade2]) \<and>
   [1000, 500, - 11750 :: real] \<noteq> [] \<and>
   [1000, 500, - 11750] ! 0 = initial_capital (demo_cfg 0)"
proof -
  have n: "demo_price \<noteq> []"
    by (simp add: demo_price_def)
  have r: "backtest (demo_cfg 0) demo_price demo_signal (Some demo_atr) =
     Inr ([1000, 500, - 11750], [demo_trade1, demo_trade2])"
    by (simp add: engine_defs demo_defs upt_rec)
  from first_equity_is_initial_capital [OF n r] n r show ?thesis by blast
qed

text \<open>
  C10. The ledger of a returned run is chronological and non-overlapping: every trade
  has its entry index strictly below its exit index, and of two consecutive trades
  the later one is entered at or after the bar where the earlier one was closed.
\<close>

theorem ledger_chronological:
  assumes "backtest cfg price signal ind = Inr (eq, tr)"
  shows "(\<forall>t\<in>set tr. tr_entry_idx t < tr_exit_idx t) \<and>
         (\<forall>k. Suc k < length tr \<longrightarrow> tr_exit_idx (tr ! k) \<le> tr_entry_idx (tr ! Suc k))"
proof -
  from assms obtain st where s: "simulate cfg price signal ind = Inr st"
    and tr: "tr = trades st"
    by (auto simp: backtest_Inr)
  from s have inv: "ledger_inv (length price) st"
    unfolding simulate_def by (rule ledger_run)
  then have "\<forall>t\<in>set tr. tr_entry_idx t < tr_exit_idx t"
    by (simp add: ledger_inv_def tr)
  moreover from inv have "sorted_wrt (\<lambda>a b. tr_exit_idx a \<le> tr_entry_idx b) tr"
    by (simp add: ledger_inv_def tr)
  then have "\<forall>k. Suc k < length tr \<longrightarrow> tr_exit_idx (tr ! k) \<le> tr_entry_idx (tr ! Suc k)"
    by (simp add: sorted_wrt_iff_nth_less)
  ultimately show ?thesis by blast
qed

theorem ledger_chronological_witness:
  "backtest (demo_cfg 0) demo_price demo_signal (Some demo_atr) =
     Inr ([1000, 500, - 11750], [demo_trade1, demo_trade2]) \<and>
   tr_entry_idx demo_trade1 < tr_exit_idx demo_trade1 \<and>
   tr_entry_idx demo_trade2 < tr_exit_idx demo_trade2 \<and>
   tr_exit_idx demo_trade1 \<le> tr_entry_idx demo_trade2"
proof -
  have r: "backtest (demo_cfg 0) demo_price demo_signal (Some demo_atr) =
     Inr ([1000, 500, - 11750], [demo_trade1, demo_trade2])"
    by (simp add: engine_defs demo_defs upt_rec)
  from ledger_chronological [OF r]
  have "(\<forall>t\<in>set [demo_trade1, demo_trade2]. tr_entry_idx t < tr_exit_idx t) \<and>
    (Suc 0 < length [demo_trade1, demo_trade2] \<longrightarrow>
       tr_exit_idx ([demo_trade1, demo_trade2] ! 0) \<le>
       tr_entry_idx ([demo_trade1, demo_trade2] ! Suc 0))"
    by blast
  with r show ?thesis by simp
qed

text \<open>
  C4, as stated, fails: the engine checks nothing before the loop. A negative fee
  rate is simulated to the end without an error, and so is a signal series shorter
  than the price series when the bars beyond its end are spent in an open position.
\<close>

theorem no_upfront_validation_counterexample:
  "fee_pct (demo_cfg (- (1 / 100))) < 0 \<and>
   backtest (demo_cfg (- (1 / 100))) [100, 99] [1, 0] (Some [Some 1, Some 1]) =
     Inr ([1000, 500],
       [\<lparr>tr_entry_idx = 0, tr_exit_idx = 1, tr_side = 1, tr_entry_price = 100,
         tr_exit_price = 99, tr_qty = 500, tr_pnl = 495, tr_ret = 99 / 200\<rparr>]) \<and>
   length [1 :: int] \<noteq> length [100, 100, 100 :: real] \<and>
   backtest (demo_cfg 0) [100, 100, 100] [1] (Some [Some 1]) = Inr ([1000, 1000, 1000], [])"
  by (simp add: engine_defs demo_defs upt_rec)

text \<open>
  C4, amended. The engine validates nothing before the loop. A call raises exactly
  when the loop, having processed all earlier bars (one equity value each), reaches a
  bar \<open>i\<close> at which, after mark-to-market and exit logic, no position is open and
  either \<open>i\<close> lies beyond the end of the signal series, or the signal at \<open>i\<close> is
  nonzero and \<open>i\<close> lies beyond the end of the volatility series; the error is the
  index error of that read, and the call then returns neither curve nor ledger. The
  sign of the fee, slippage and risk parameters plays no part: a run whose signal and
  volatility series are at least as long as the price series returns, with one equity
  value per bar.
\<close>

theorem no_upfront_validation:
  "(backtest cfg price signal ind = Inl e \<longleftrightarrow>
      e = IndexError \<and>
      (\<exists>i<length price. \<exists>st.
         run_bars cfg price signal (atr_of ind (length price)) [0..<i] (init cfg) = Inr st \<and>
         length (equity_curve st) = i \<and>
         position (exit_logic cfg i (price ! i) (mark_to_market (price ! i) st)) = None \<and>
         (length signal \<le> i \<or>
          (signal ! i \<noteq> 0 \<and> length (atr_of ind (length price)) \<le> i)))) \<and>
   (length price \<le> length signal \<and> length price \<le> length (atr_of ind (length price)) \<longrightarrow>
      (\<exists>eq tr. backtest cfg price signal ind = Inr (eq, tr) \<and> length eq = length price))"
proof -
  let ?atr = "atr_of ind (length price)"
  have "backtest cfg price signal ind = Inl e \<longleftrightarrow>
      run_bars cfg price signal ?atr [0..<length price] (init cfg) = Inl e"
    by (simp add: backtest_Inl simulate_def)
  also have "\<dots> \<longleftrightarrow> (\<exists>i<length price. \<exists>st.
      run_bars cfg price signal ?atr [0..<i] (init cfg) = Inr st \<and>
      bar cfg price signal ?atr i st = Inl e)"
    by (rule run_bars_Inl_iff)
  also have "\<dots> \<longleftrightarrow> e = IndexError \<and> (\<exists>i<length price. \<exists>st.
         run_bars cfg price signal ?atr [0..<i] (init cfg) = Inr st \<and>
         length (equity_curve st) = i \<and>
         position (exit_logic cfg i (price ! i) (mark_to_market (price ! i) st)) = None \<and>
         (length signal \<le> i \<or> (signal ! i \<noteq> 0 \<and> length ?atr \<le> i)))"
    by (auto simp: bar_Inl_iff run_bars_upt_length)
  finally have a: "backtest cfg price signal ind = Inl e \<longleftrightarrow>
      e = IndexError \<and> (\<exists>i<length price. \<exists>st.
         run_bars cfg price signal ?atr [0..<i] (init cfg) = Inr st \<and>
         length (equity_curve st) = i \<and>
         position (exit_logic cfg i (price ! i) (mark_to_market (price ! i) st)) = None \<and>
         (length signal \<le> i \<or> (signal ! i \<noteq> 0 \<and> length ?atr \<le> i)))" .
  have b: "\<exists>eq tr. backtest cfg price signal ind = Inr (eq, tr) \<and> length eq = length price"
    if "length price \<le> length signal \<and> length price \<le> length ?atr"
  proof -
    from that obtain st where "simulate cfg price signal ind = Inr st"
      using simulate_total by blast
    then show ?thesis
      by (simp add: backtest_def simulate_equity_length)
  qed
  from a b show ?thesis by blast
qed

theorem no_upfront_validation_witness:
  "run_bars (demo_cfg 0) [100, 100, 100] [0, 0] (atr_of None (length [100, 100, 100 :: real]))
     [0..<2] (init (demo_cfg 0)) = Inr idle_st \<and>
   length (equity_curve idle_st) = 2 \<and>
   position (exit_logic (demo_cfg 0) 2 ([100, 100, 100] ! 2)
     (mark_to_market ([100, 100, 100] ! 2) idle_st)) = None \<and>
   length [0, 0 :: int] \<le> 2 \<and> 2 < length [100, 100, 100 :: real] \<and>
   backtest (demo_cfg 0) [100, 100, 100] [0, 0] None = Inl IndexError \<and>
   run_bars (demo_cfg 0) [100] [1] (atr_of (Some []) (length [100 :: real])) [0..<0]
     (init (demo_cfg 0)) = Inr (init (demo_cfg 0)) \<and>
   position (exit_logic (demo_cfg 0) 0 ([100] ! 0)
     (mark_to_market ([100] ! 0) (init (demo_cfg 0)))) = None \<and>
   [1 :: int] ! 0 \<noteq> 0 \<and> length (atr_of (Some []) (length [100 :: real])) \<le> 0 \<and>
   backtest (demo_cfg 0) [100] [1] (Some []) = Inl IndexError \<and>
   length [100, 99 :: real] \<le> length [1, 0 :: int] \<and>
   length [100, 99 :: real] \<le>
     length (atr_of (Some [Some 1, Some 1]) (length [100, 99 :: real])) \<and>
   fee_pct (demo_cfg (- (1 / 100))) < 0 \<and>
   backtest (demo_cfg (- (1 / 100))) [100, 99] [1, 0] (Some [Some 1, Some 1]) =
     Inr ([1000, 500],
       [\<lparr>tr_entry_idx = 0, tr_exit_idx = 1, tr_side = 1, tr_entry_price = 100,
         tr_exit_price = 99, tr_qty = 500, tr_pnl = 495, tr_ret = 99 / 200\<rparr>]) \<and>
   length [1000, 500 :: real] = length [100, 99 :: real]"
proof -
  have r: "run_bars (demo_cfg 0) [100, 100, 100] [0, 0]
      (atr_of None (length [100, 100, 100 :: real])) [0..<2] (init (demo_cfg 0)) = Inr idle_st"
    by (simp add: engine_defs demo_defs idle_st_def upt_rec)
  have l: "length (equity_curve idle_st) = 2"
    by (simp add: idle_st_def)
  have f: "position (exit_logic (demo_cfg 0) 2 ([100, 100, 100] ! 2)
      (mark_to_market ([100, 100, 100] ! 2) idle_st)) = None"
    by (simp add: engine_defs idle_st_def)
  have s: "length [0, 0 :: int] \<le> 2" "2 < length [100, 100, 100 :: real]"
    by simp_all
  from no_upfront_validation
    [of "demo_cfg 0" "[100, 100, 100]" "[0, 0]" None IndexError] r l f s
  have e1: "backtest (demo_cfg 0) [100, 100, 100] [0, 0] None = Inl IndexError"
    by blast
  have r': "run_bars (demo_cfg 0) [100] [1] (atr_of (Some []) (length [100 :: real])) [0..<0]
      (init (demo_cfg 0)) = Inr (init (demo_cfg 0))"
    by simp
  have l': "length (equity_curve (init (demo_cfg 0))) = 0"
    by (simp add: init_def)
  have f': "position (exit_logic (demo_cfg 0) 0 ([100] ! 0)
      (mark_to_market ([100] ! 0) (init (demo_cfg 0)))) = None"
    by (simp add: engine_defs)
  have s': "[1 :: int] ! 0 \<noteq> 0" "length (atr_of (Some []) (length [100 :: real])) \<le> 0"
    "0 < length [100 :: real]"
    by (simp_all add: atr_of_def)
  from no_upfront_validation
    [of "demo_cfg 0" "[100]" "[1]" "Some []" IndexError] r' l' f' s'
  have e2: "backtest (demo_cfg 0) [100] [1] (Some []) = Inl IndexError"
    by blast
  have c: "length [100, 99 :: real] \<le> length [1, 0 :: int]"
    "length [100, 99 :: real] \<le>
       length (atr_of (Some [Some 1, Some 1]) (length [100, 99 :: real]))"
    by (simp_all add: atr_of_def)
  from no_upfront_validation
    [of "demo_cfg (- (1 / 100))" "[100, 99]" "[1, 0]" "Some [Some 1, Some 1]" IndexError] c
  obtain eq tr where
    "backtest (demo_cfg (- (1 / 100))) [100, 99] [1, 0] (Some [Some 1, Some 1]) = Inr (eq, tr)"
    "length eq = length [100, 99 :: real]"
    by blast
  moreover have v: "backtest (demo_cfg (- (1 / 100))) [100, 99] [1, 0] (Some [Some 1, Some 1]) =
     Inr ([1000, 500],
       [\<lparr>tr_entry_idx = 0, tr_exit_idx = 1, tr_side = 1, tr_entry_price = 100,
         tr_exit_price = 99, tr_qty = 500, tr_pnl = 495, tr_ret = 99 / 200\<rparr>])"
    by (simp add: engine_defs demo_defs upt_rec)
  ultimately have n: "length [1000, 500 :: real] = length [100, 99 :: real]"
    by simp
  have g: "fee_pct (demo_cfg (- (1 / 100))) < 0"
    by (simp add: demo_defs)
  from r l f s e1 r' f' s' e2 c g v n show ?thesis by blast
qed

text \<open>
  C5. On a bar whose exit logic closes the open position, the entry logic still runs:
  with a nonzero signal, an available positive ATR and a positive quantity sized from
  the balance after the close, the bar ends with the closed trade appended to the
  ledger and a new position open whose entry index is that bar.
\<close>

theorem same_bar_reopen:
  assumes "position st = Some pos"
    and "exit_reason pos (price ! i) = Some r"
    and "i < length signal" and "signal ! i \<noteq> 0"
    and "i < length atr" and "atr ! i = Some a" and "0 < a"
    and "0 < atr_position_size (balance (close_position cfg i (price ! i) pos st))
           (risk_per_trade cfg) a (price ! i) (atr_stop_mult cfg)"
  shows "\<exists>st' t pos'. bar cfg price signal atr i st = Inr st' \<and>
           trades st' = trades st @ [t] \<and>
           tr_entry_idx t = entry_idx pos \<and> tr_exit_idx t = i \<and>
           position st' = Some pos' \<and> entry_idx pos' = i \<and> side pos' = signal ! i"
proof -
  let ?p = "price ! i"
  let ?m = "mark_to_market ?p st"
  let ?c = "close_position cfg i ?p pos ?m"
  let ?q = "atr_position_size (balance ?c) (risk_per_trade cfg) a ?p (atr_stop_mult cfg)"
  have x: "exit_logic cfg i ?p ?m = ?c"
    using assms(1,2) by (simp add: exit_logic_close mark_to_market_simps)
  have bal: "balance ?c = balance (close_position cfg i ?p pos st)"
    by (simp add: close_position_def Let_def mark_to_market_def)
  have flat: "position ?c = None"
    by (simp add: close_position_simps)
  from entry_logic_opens [OF flat assms(3,4,5,6,7)] assms(8) bal
  have e: "entry_logic cfg signal atr i ?p ?c =
      Inr (?c\<lparr>position := Some (open_position cfg i ?p (signal ! i) a ?q)\<rparr>)"
    by simp
  have b: "bar cfg price signal atr i st =
      Inr (?c\<lparr>position := Some (open_position cfg i ?p (signal ! i) a ?q)\<rparr>)"
    by (simp add: bar_def Let_def x e)
  obtain t where t: "trades ?c = trades ?m @ [t]" "tr_exit_idx t = i"
    "tr_entry_idx t = entry_idx pos"
    using close_position_trades by blast
  show ?thesis
    using b t by (simp add: open_position_simps mark_to_market_simps)
qed

theorem same_bar_reopen_witness:
  "position demo_st1 = Some demo_pos1 \<and>
   exit_reason demo_pos1 (demo_price ! 1) = Some Stop \<and>
   1 < length demo_signal \<and> demo_signal ! 1 \<noteq> 0 \<and>
   1 < length demo_atr \<and> demo_atr ! 1 = Some 1 \<and> (0::real) < 1 \<and>
   0 < atr_position_size
         (balance (close_position (demo_cfg 0) 1 (demo_price ! 1) demo_pos1 demo_st1))
         (risk_per_trade (demo_cfg 0)) 1 (demo_price ! 1) (atr_stop_mult (demo_cfg 0)) \<and>
   bar (demo_cfg 0) demo_price demo_signal demo_atr 1 demo_st1 = Inr demo_st2 \<and>
   trades demo_st2 = trades demo_st1 @ [demo_trade1] \<and>
   tr_entry_idx demo_trade1 = entry_idx demo_pos1 \<and> tr_exit_idx demo_trade1 = 1 \<and>
   position demo_st2 = Some demo_pos2 \<and> entry_idx demo_pos2 = 1 \<and>
   side demo_pos2 = demo_signal ! 1"
proof -
  have h1: "position demo_st1 = Some demo_pos1"
    by (simp add: demo_defs)
  have h2: "exit_reason demo_pos1 (demo_price ! 1) = Some Stop"
    by (simp add: demo_defs exit_reason_def)
  have h3: "1 < length demo_signal" "demo_signal ! 1 \<noteq> 0"
    by (simp_all add: demo_defs)
  have h4: "1 < length demo_atr" "demo_atr ! 1 = Some 1" "(0::real) < 1"
    by (simp_all add: demo_defs)
  have h5: "0 < atr_position_size
         (balance (close_position (demo_cfg 0) 1 (demo_price ! 1) demo_pos1 demo_st1))
         (risk_per_trade (demo_cfg 0)) 1 (demo_price ! 1) (atr_stop_mult (demo_cfg 0))"
    by (simp add: demo_defs close_position_def atr_position_size_def Let_def)
  from same_bar_reopen [OF h1 h2 h3 h4 h5]
  obtain st' where "bar (demo_cfg 0) demo_price demo_signal demo_atr 1 demo_st1 = Inr st'"
    by blast
  moreover have "bar (demo_cfg 0) demo_price demo_signal demo_atr 1 demo_st1 = Inr demo_st2"
    by (simp add: engine_defs demo_defs)
  moreover have "trades demo_st2 = trades demo_st1 @ [demo_trade1] \<and>
      tr_entry_idx demo_trade1 = entry_idx demo_pos1 \<and> tr_exit_idx demo_trade1 = 1 \<and>
      position demo_st2 = Some demo_pos2 \<and> entry_idx demo_pos2 = 1 \<and>
      side demo_pos2 = demo_signal ! 1"
    by (simp add: demo_defs)
  ultimately show ?thesis using h1 h2 h3 h4 h5 by blast
qed

text \<open>
  C6. When the engine is flat at the entry check of a bar (after that bar's
  mark-to-market and exit logic) with a nonzero signal, and the ATR of the bar is NaN
  or not positive, or the sized quantity is not positive, then no position is opened:
  the bar ends, without an error, in exactly the state the mark-to-market and the
  exit logic produced, and the loop goes on with the next bar.
\<close>

theorem entry_skipped_locally:
  assumes "st = exit_logic cfg i (price ! i) (mark_to_market (price ! i) st0)"
    and "position st = None"
    and "i < length signal" and "signal ! i \<noteq> 0" and "i < length atr"
    and "atr ! i = None \<or>
         (\<exists>a. atr ! i = Some a \<and>
            (a \<le> 0 \<or>
             atr_position_size (balance st) (risk_per_trade cfg) a (price ! i)
               (atr_stop_mult cfg) \<le> 0))"
  shows "entry_logic cfg signal atr i (price ! i) st = Inr st \<and>
         bar cfg price signal atr i st0 = Inr st \<and>
         run_bars cfg price signal atr (i # is) st0 = run_bars cfg price signal atr is st"
proof -
  from assms(2,3,4,5,6)
  have e: "entry_logic cfg signal atr i (price ! i) st = Inr st"
    by (auto simp: entry_logic_def Let_def)
  with assms(1) have b: "bar cfg price signal atr i st0 = Inr st"
    by (simp add: bar_def Let_def)
  from e b show ?thesis by simp
qed

theorem entry_skipped_locally_witness:
  "gap_st2 = exit_logic (demo_cfg 0) 1 (demo_price ! 1)
     (mark_to_market (demo_price ! 1) demo_st1) \<and>
   position gap_st2 = None \<and> 1 < length demo_signal \<and> demo_signal ! 1 \<noteq> 0 \<and>
   1 < length gap_atr \<and> gap_atr ! 1 = None \<and>
   bar (demo_cfg 0) demo_price demo_signal gap_atr 1 demo_st1 = Inr gap_st2 \<and>
   run_bars (demo_cfg 0) demo_price demo_signal gap_atr [1] demo_st1 = Inr gap_st2"
proof -
  have h1: "gap_st2 = exit_logic (demo_cfg 0) 1 (demo_price ! 1)
     (mark_to_market (demo_price ! 1) demo_st1)"
    by (simp add: demo_defs exit_logic_def exit_reason_def close_position_def
        mark_to_market_def mtm_def Let_def)
  have h2: "position gap_st2 = None"
    by (simp add: demo_defs)
  have h3: "1 < length demo_signal" "demo_signal ! 1 \<noteq> 0" "1 < length gap_atr"
    by (simp_all add: demo_defs)
  have g: "gap_atr ! 1 = None"
    by (simp add: demo_defs)
  then have h4: "gap_atr ! 1 = None \<or>
      (\<exists>a. gap_atr ! 1 = Some a \<and>
         (a \<le> 0 \<or>
          atr_position_size (balance gap_st2) (risk_per_trade (demo_cfg 0)) a (demo_price ! 1)
            (atr_stop_mult (demo_cfg 0)) \<le> 0))"
    by blast
  from entry_skipped_locally [OF h1 h2 h3 h4, of "[]"] h1 h2 h3 g
  show ?thesis by simp
qed

text \<open>
  C7. A long exit is filled at \<open>close * (1 - slippage)\<close> and a short exit at
  \<open>close * (1 + slippage)\<close>; a long entry is filled at \<open>close * (1 + slippage)\<close> and a
  short entry at \<open>close * (1 - slippage)\<close>. For a non-negative close and a
  non-negative slippage rate the first is at most the close and the second at least
  the close, so each fill is moved against the trader.
\<close>

theorem slippage_against_trader:
  "(position st = Some pos \<and> exit_reason pos p = Some r \<longrightarrow>
      (\<exists>t. trades (exit_logic cfg i p st) = trades st @ [t] \<and>
         (side pos = 1 \<longrightarrow> tr_exit_price t = p * (1 - slippage_pct cfg)) \<and>
         (side pos = - 1 \<longrightarrow> tr_exit_price t = p * (1 + slippage_pct cfg)))) \<and>
   (position st = None \<and> entry_logic cfg signal atr i p st = Inr st' \<and>
    position st' = Some pos' \<longrightarrow>
      side pos' = signal ! i \<and>
      (side pos' = 1 \<longrightarrow> entry_price pos' = p * (1 + slippage_pct cfg)) \<and>
      (side pos' = - 1 \<longrightarrow> entry_price pos' = p * (1 - slippage_pct cfg))) \<and>
   (0 \<le> p \<and> 0 \<le> slippage_pct cfg \<longrightarrow>
      p * (1 - slippage_pct cfg) \<le> p \<and> p \<le> p * (1 + slippage_pct cfg))"
proof -
  have x: "\<exists>t. trades (exit_logic cfg i p st) = trades st @ [t] \<and>
         (side pos = 1 \<longrightarrow> tr_exit_price t = p * (1 - slippage_pct cfg)) \<and>
         (side pos = - 1 \<longrightarrow> tr_exit_price t = p * (1 + slippage_pct cfg))"
    if "position st = Some pos \<and> exit_reason pos p = Some r"
  proof -
    from that have "exit_logic cfg i p st = close_position cfg i p pos st"
      by (simp add: exit_logic_close)
    then show ?thesis
      by (simp add: close_position_def Let_def)
  qed
  have e: "side pos' = signal ! i \<and>
      (side pos' = 1 \<longrightarrow> entry_price pos' = p * (1 + slippage_pct cfg)) \<and>
      (side pos' = - 1 \<longrightarrow> entry_price pos' = p * (1 - slippage_pct cfg))"
    if "position st = None \<and> entry_logic cfg signal atr i p st = Inr st' \<and>
      position st' = Some pos'"
  proof -
    from that obtain a' q where "pos' = open_position cfg i p (signal ! i) a' q"
      by (auto simp: entry_logic_def Let_def split: if_splits)
    then show ?thesis
      by (simp add: open_position_simps)
  qed
  have d: "p * (1 - slippage_pct cfg) \<le> p \<and> p \<le> p * (1 + slippage_pct cfg)"
    if "0 \<le> p \<and> 0 \<le> slippage_pct cfg"
  proof -
    from that have "0 \<le> p * slippage_pct cfg" by simp
    then show ?thesis by (simp add: algebra_simps)
  qed
  from x e d show ?thesis by blast
qed

theorem slippage_against_trader_witness:
  "(position slip_st1 = Some slip_pos1 \<and> exit_reason slip_pos1 90 = Some Stop) \<and>
   side slip_pos1 = 1 \<and>
   trades (exit_logic slip_cfg 1 90 slip_st1) = trades slip_st1 @ [slip_trade1] \<and>
   tr_exit_price slip_trade1 = 90 * (1 - slippage_pct slip_cfg) \<and>
   (position slip_st2 = Some slip_pos2 \<and> exit_reason slip_pos2 80 = Some Tp) \<and>
   side slip_pos2 = - 1 \<and>
   trades (exit_logic slip_cfg 2 80 slip_st2) = trades slip_st2 @ [slip_trade2] \<and>
   tr_exit_price slip_trade2 = 80 * (1 + slippage_pct slip_cfg) \<and>
   (position (mark_to_market 100 (init slip_cfg)) = None \<and>
    entry_logic slip_cfg slip_signal demo_atr 0 100 (mark_to_market 100 (init slip_cfg)) =
      Inr slip_st1 \<and>
    position slip_st1 = Some slip_pos1) \<and>
   entry_price slip_pos1 = 100 * (1 + slippage_pct slip_cfg) \<and>
   (position (exit_logic slip_cfg 1 90 (mark_to_market 90 slip_st1)) = None \<and>
    entry_logic slip_cfg slip_signal demo_atr 1 90
      (exit_logic slip_cfg 1 90 (mark_to_market 90 slip_st1)) = Inr slip_st2 \<and>
    position slip_st2 = Some slip_pos2) \<and>
   entry_price slip_pos2 = 90 * (1 - slippage_pct slip_cfg) \<and>
   ((0::real) \<le> 90 \<and> 0 \<le> slippage_pct slip_cfg) \<and>
   90 * (1 - slippage_pct slip_cfg) \<le> 90 \<and> 90 \<le> 90 * (1 + slippage_pct slip_cfg)"
proof -
  have x1: "position slip_st1 = Some slip_pos1 \<and> exit_reason slip_pos1 90 = Some Stop"
    by (simp add: demo_defs exit_reason_def)
  have x2: "position slip_st2 = Some slip_pos2 \<and> exit_reason slip_pos2 80 = Some Tp"
    by (simp add: demo_defs exit_reason_def)
  have e1: "position (mark_to_market 100 (init slip_cfg)) = None \<and>
    entry_logic slip_cfg slip_signal demo_atr 0 100 (mark_to_market 100 (init slip_cfg)) =
      Inr slip_st1 \<and>
    position slip_st1 = Some slip_pos1"
    by (simp add: engine_defs demo_defs)
  have e2: "position (exit_logic slip_cfg 1 90 (mark_to_market 90 slip_st1)) = None \<and>
    entry_logic slip_cfg slip_signal demo_atr 1 90
      (exit_logic slip_cfg 1 90 (mark_to_market 90 slip_st1)) = Inr slip_st2 \<and>
    position slip_st2 = Some slip_pos2"
    by (simp add: engine_defs demo_defs)
  have d: "(0::real) \<le> 90 \<and> 0 \<le> slippage_pct slip_cfg"
    by (simp add: demo_defs)
  have t1: "trades (exit_logic slip_cfg 1 90 slip_st1) = trades slip_st1 @ [slip_trade1]"
    by (simp add: engine_defs demo_defs)
  have t2: "trades (exit_logic slip_cfg 2 80 slip_st2) = trades slip_st2 @ [slip_trade2]"
    by (simp add: engine_defs demo_defs)
  from slippage_against_trader
    [of slip_st1 slip_pos1 90 Stop slip_cfg 1 slip_signal demo_atr slip_st1 slip_pos1] x1 t1
  have a1: "tr_exit_price slip_trade1 = 90 * (1 - slippage_pct slip_cfg)"
    by (simp add: demo_defs)
  from slippage_against_trader
    [of slip_st2 slip_pos2 80 Tp slip_cfg 2 slip_signal demo_atr slip_st2 slip_pos2] x2 t2
  have a2: "tr_exit_price slip_trade2 = 80 * (1 + slippage_pct slip_cfg)"
    by (simp add: demo_defs)
  from slippage_against_trader
    [of "mark_to_market 100 (init slip_cfg)" slip_pos1 100 Stop slip_cfg 0 slip_signal
      demo_atr slip_st1 slip_pos1] e1
  have a3: "entry_price slip_pos1 = 100 * (1 + slippage_pct slip_cfg)"
    by (simp add: demo_defs)
  from slippage_against_trader
    [of "exit_logic slip_cfg 1 90 (mark_to_market 90 slip_st1)" slip_pos2 90 Stop slip_cfg 1
      slip_signal demo_atr slip_st2 slip_pos2] e2 d
  have a4: "entry_price slip_pos2 = 90 * (1 - slippage_pct slip_cfg) \<and>
      90 * (1 - slippage_pct slip_cfg) \<le> 90 \<and> 90 \<le> 90 * (1 + slippage_pct slip_cfg)"
    by (simp add: demo_defs)
  have s: "side slip_pos1 = 1 \<and> side slip_pos2 = - 1"
    by (simp add: demo_defs)
  from x1 x2 e1 e2 d t1 t2 a1 a2 a3 a4 s show ?thesis by blast
qed

text \<open>
  C1. The comment of line 154 announces the net entry price as the break-even price
  per unit, which is what the claim states: the entry price shifted by the entry fee
  per unit of quantity. Line 155 divides the fee by \<open>max(1e-9, |qty|)\<close> instead. In
  the run below the sized quantity is \<open>1 / 10 ^ 10\<close>: the engine stores a net entry
  price of 1000.1 where the break-even price per unit is 1001, and a realized result
  of 9.88e-9 where the claimed formula gives 9.79e-9.
\<close>

theorem entry_price_net_floor_divergence:
  "simulate tiny_cfg [1000] [1] (Some [Some 50]) = Inr tiny_st \<and>
   position tiny_st = Some tiny_pos \<and>
   entry_price_net tiny_pos = 10001 / 10 \<and>
   spec_entry_price_net (entry_price tiny_pos)
     (\<bar>qty tiny_pos\<bar> * entry_price tiny_pos * fee_pct tiny_cfg) (qty tiny_pos)
     (side tiny_pos) = 1001 \<and>
   backtest tiny_cfg [1000, 1100] [1, 0] (Some [Some 50, Some 50]) =
     Inr ([1 / 10 ^ 6, 101 / 10 ^ 8], [tiny_trade]) \<and>
   tr_pnl tiny_trade = 988 / 10 ^ 11 \<and>
   spec_pnl (tr_exit_price tiny_trade)
     (spec_entry_price_net (tr_entry_price tiny_trade)
        (\<bar>tr_qty tiny_trade\<bar> * tr_entry_price tiny_trade * fee_pct tiny_cfg)
        (tr_qty tiny_trade) (tr_side tiny_trade))
     (tr_qty tiny_trade) (tr_side tiny_trade)
     (\<bar>tr_qty tiny_trade\<bar> * tr_exit_price tiny_trade * fee_pct tiny_cfg) = 979 / 10 ^ 11"
  by (simp add: engine_defs demo_defs spec_entry_price_net_def spec_pnl_def upt_rec)

text \<open>
  C8, as stated, fails: the fee changes the balance from which later trades are sized,
  and whether they are opened at all. Without a fee the run below closes two trades
  and loses 12750; with a fee of one percent the first trade leaves a negative
  balance, no second position is opened, and the run loses 1495.
\<close>

theorem fee_monotone_counterexample:
  "backtest (demo_cfg 0) demo_price demo_signal (Some demo_atr) =
     Inr ([1000, 500, - 11750], [demo_trade1, demo_trade2]) \<and>
   backtest (demo_cfg (1 / 100)) demo_price demo_signal (Some demo_atr) =
     Inr ([1000, 500, - 495], [fee_trade]) \<and>
   (0::real) < 1 / 100 \<and>
   total_pnl [demo_trade1, demo_trade2] = - 12750 \<and>
   total_pnl [fee_trade] = - 1495 \<and>
   \<not> total_pnl [fee_trade] < total_pnl [demo_trade1, demo_trade2]"
  by (simp add: engine_defs demo_defs total_pnl_def upt_rec)

text \<open>
  C8, amended. Two runs over the same price, signal and volatility series whose
  configurations differ only in the fee rate either both close no trade or both close
  at least one. With no closed trade the total realized result is the same (zero) and
  the equity curves are equal. Otherwise the first closed trade has the same entry
  and exit bar, side, entry and exit price and quantity in both runs and, for fee
  rates in order, positive closes and a slippage rate in \<open>[0, 1)\<close>, its realized
  result under the larger fee rate is not larger; so the total realized result of a
  run that closes exactly one trade is not larger under the larger fee rate. The order
  is not strict, since in the engine's floating-point arithmetic a small fee can leave
  a result unchanged. Beyond the first trade the totals are in no fixed order.
\<close>

theorem fee_effect_on_first_trade:
  assumes "backtest (cfg\<lparr>fee_pct := f1\<rparr>) price signal ind = Inr (eq1, tr1)"
    and "backtest (cfg\<lparr>fee_pct := f2\<rparr>) price signal ind = Inr (eq2, tr2)"
  shows "(tr1 = [] \<longleftrightarrow> tr2 = []) \<and>
    (tr2 = [] \<longrightarrow> eq1 = eq2 \<and> total_pnl tr1 = 0 \<and> total_pnl tr2 = 0) \<and>
    (tr2 \<noteq> [] \<longrightarrow>
       tr_entry_idx (hd tr1) = tr_entry_idx (hd tr2) \<and>
       tr_exit_idx (hd tr1) = tr_exit_idx (hd tr2) \<and>
       tr_side (hd tr1) = tr_side (hd tr2) \<and>
       tr_entry_price (hd tr1) = tr_entry_price (hd tr2) \<and>
       tr_exit_price (hd tr1) = tr_exit_price (hd tr2) \<and>
       tr_qty (hd tr1) = tr_qty (hd tr2)) \<and>
    (f1 \<le> f2 \<and> (\<forall>p\<in>set price. 0 < p) \<and> 0 \<le> slippage_pct cfg \<and> slippage_pct cfg < 1 \<longrightarrow>
       (tr2 \<noteq> [] \<longrightarrow> tr_pnl (hd tr2) \<le> tr_pnl (hd tr1)) \<and>
       (length tr1 = 1 \<and> length tr2 = 1 \<longrightarrow> total_pnl tr2 \<le> total_pnl tr1))"
proof -
  let ?c1 = "cfg\<lparr>fee_pct := f1\<rparr>"
  let ?c2 = "cfg\<lparr>fee_pct := f2\<rparr>"
  let ?P = "f1 \<le> f2 \<and> (\<forall>p\<in>set price. 0 < p) \<and> 0 \<le> slippage_pct cfg \<and> slippage_pct cfg < 1"
  from assms(1) obtain s1 where s1: "simulate ?c1 price signal ind = Inr s1"
    and t1: "tr1 = trades s1" and q1: "eq1 = equity_curve s1"
    by (auto simp: backtest_Inr)
  from assms(2) obtain s2 where s2: "simulate ?c2 price signal ind = Inr s2"
    and t2: "tr2 = trades s2" and q2: "eq2 = equity_curve s2"
    by (auto simp: backtest_Inr)
  have pp: "\<forall>i<length price. 0 < price ! i" if ?P
    using that by simp
  have "pre_rel ?P f1 f2 s1 s2 \<or> post_rel ?P s1 s2"
    by (rule fee_inv_run [OF _ pp _ _ order_refl s1 [unfolded simulate_def]
          s2 [unfolded simulate_def]]) simp_all
  then show ?thesis
  proof
    assume "pre_rel ?P f1 f2 s1 s2"
    then have "tr1 = []" "tr2 = []" "eq1 = eq2"
      by (simp_all add: pre_rel_def t1 t2 q1 q2)
    then show ?thesis
      by (simp add: total_pnl_def)
  next
    assume po: "post_rel ?P s1 s2"
    then have ne: "tr1 \<noteq> []" "tr2 \<noteq> []" and sf: "same_fill (hd tr1) (hd tr2)"
      and mono: "?P \<longrightarrow> tr_pnl (hd tr2) \<le> tr_pnl (hd tr1)"
      by (simp_all add: post_rel_def t1 t2)
    have one: "total_pnl tr2 \<le> total_pnl tr1"
      if "?P" and l: "length tr1 = 1 \<and> length tr2 = 1"
    proof -
      from l obtain a where a: "tr1 = [a]"
        by (cases tr1) simp_all
      from l obtain b where b: "tr2 = [b]"
        by (cases tr2) simp_all
      from mono that(1) show ?thesis
        by (simp add: a b total_pnl_def)
    qed
    from ne sf mono one show ?thesis
      unfolding same_fill_def by blast
  qed
qed

theorem fee_effect_on_first_trade_witness:
  "backtest ((demo_cfg 0)\<lparr>fee_pct := 0\<rparr>) demo_price demo_signal (Some demo_atr) =
     Inr ([1000, 500, - 11750], [demo_trade1, demo_trade2]) \<and>
   backtest ((demo_cfg 0)\<lparr>fee_pct := 1 / 100\<rparr>) demo_price demo_signal (Some demo_atr) =
     Inr ([1000, 500, - 495], [fee_trade]) \<and>
   [fee_trade] \<noteq> [] \<and>
   tr_entry_idx demo_trade1 = tr_entry_idx fee_trade \<and>
   tr_exit_idx demo_trade1 = tr_exit_idx fee_trade \<and>
   tr_side demo_trade1 = tr_side fee_trade \<and>
   tr_entry_price demo_trade1 = tr_entry_price fee_trade \<and>
   tr_exit_price demo_trade1 = tr_exit_price fee_trade \<and>
   tr_qty demo_trade1 = tr_qty fee_trade \<and>
   (0::real) \<le> 1 / 100 \<and> (0::real) < 100 \<and> (0::real) < 99 \<and> (0::real) < 50 \<and>
   0 \<le> slippage_pct (demo_cfg 0) \<and> slippage_pct (demo_cfg 0) < 1 \<and>
   tr_pnl fee_trade \<le> tr_pnl demo_trade1 \<and>
   backtest ((demo_cfg 0)\<lparr>fee_pct := 0\<rparr>) demo_price quiet_signal (Some demo_atr) =
     Inr ([1000, 1000, 1000], []) \<and>
   backtest ((demo_cfg 0)\<lparr>fee_pct := 1 / 100\<rparr>) demo_price quiet_signal (Some demo_atr) =
     Inr ([1000, 1000, 1000], []) \<and>
   total_pnl [] = 0 \<and>
   backtest ((demo_cfg 0)\<lparr>fee_pct := 0\<rparr>) [100, 99] [1, 0] (Some [Some 1, Some 1]) =
     Inr ([1000, 500], [demo_trade1]) \<and>
   backtest ((demo_cfg 0)\<lparr>fee_pct := 1 / 100\<rparr>) [100, 99] [1, 0] (Some [Some 1, Some 1]) =
     Inr ([1000, 500], [fee_trade]) \<and>
   length [demo_trade1] = 1 \<and> length [fee_trade] = 1 \<and>
   total_pnl [fee_trade] \<le> total_pnl [demo_trade1]"
proof -
  have r1: "backtest ((demo_cfg 0)\<lparr>fee_pct := 0\<rparr>) demo_price demo_signal (Some demo_atr) =
     Inr ([1000, 500, - 11750], [demo_trade1, demo_trade2])"
    by (simp add: engine_defs demo_defs upt_rec)
  have r2: "backtest ((demo_cfg 0)\<lparr>fee_pct := 1 / 100\<rparr>) demo_price demo_signal (Some demo_atr) =
     Inr ([1000, 500, - 495], [fee_trade])"
    by (simp add: engine_defs demo_defs upt_rec)
  have P: "(0::real) \<le> 1 / 100 \<and> (\<forall>p\<in>set demo_price. 0 < p) \<and>
      0 \<le> slippage_pct (demo_cfg 0) \<and> slippage_pct (demo_cfg 0) < 1"
    by (simp add: demo_defs)
  have ne: "[fee_trade] \<noteq> []" by simp
  from fee_effect_on_first_trade [OF r1 r2] P ne
  have a: "tr_entry_idx demo_trade1 = tr_entry_idx fee_trade \<and>
      tr_exit_idx demo_trade1 = tr_exit_idx fee_trade \<and>
      tr_side demo_trade1 = tr_side fee_trade \<and>
      tr_entry_price demo_trade1 = tr_entry_price fee_trade \<and>
      tr_exit_price demo_trade1 = tr_exit_price fee_trade \<and>
      tr_qty demo_trade1 = tr_qty fee_trade \<and>
      tr_pnl fee_trade \<le> tr_pnl demo_trade1"
    by simp
  have z1: "backtest ((demo_cfg 0)\<lparr>fee_pct := 0\<rparr>) demo_price quiet_signal (Some demo_atr) =
     Inr ([1000, 1000, 1000], [])"
    by (simp add: engine_defs demo_defs quiet_signal_def upt_rec)
  have z2: "backtest ((demo_cfg 0)\<lparr>fee_pct := 1 / 100\<rparr>) demo_price quiet_signal (Some demo_atr) =
     Inr ([1000, 1000, 1000], [])"
    by (simp add: engine_defs demo_defs quiet_signal_def upt_rec)
  from fee_effect_on_first_trade [OF z1 z2] have z: "total_pnl [] = 0" by simp
  have o1: "backtest ((demo_cfg 0)\<lparr>fee_pct := 0\<rparr>) [100, 99] [1, 0] (Some [Some 1, Some 1]) =
     Inr ([1000, 500], [demo_trade1])"
    by (simp add: engine_defs demo_defs upt_rec)
  have o2: "backtest ((demo_cfg 0)\<lparr>fee_pct := 1 / 100\<rparr>) [100, 99] [1, 0] (Some [Some 1, Some 1]) =
     Inr ([1000, 500], [fee_trade])"
    by (simp add: engine_defs demo_defs upt_rec)
  have P': "(0::real) \<le> 1 / 100 \<and> (\<forall>p\<in>set [100, 99 :: real]. 0 < p) \<and>
      0 \<le> slippage_pct (demo_cfg 0) \<and> slippage_pct (demo_cfg 0) < 1"
    by (simp add: demo_defs)
  have l: "length [demo_trade1] = 1 \<and> length [fee_trade] = 1" by simp
  from fee_effect_on_first_trade [OF o1 o2] P' l have o: "total_pnl [fee_trade] \<le> total_pnl [demo_trade1]"
    by blast
  have n: "(0::real) \<le> 1 / 100 \<and> (0::real) < 100 \<and> (0::real) < 99 \<and> (0::real) < 50 \<and>
      0 \<le> slippage_pct (demo_cfg 0) \<and> slippage_pct (demo_cfg 0) < 1"
    by (simp add: demo_defs)
  from r1 r2 ne a n z1 z2 z o1 o2 l o show ?thesis by blast
qed

end
